theory Spec2Isabelle
  imports Main "HOL-Library.AList"
begin

section \<open>Python values and primitives\<close>

text \<open>
  Strings are lists of characters; a character stands for a code point below 256.
  A \<^verbatim>\<open>bytes\<close> value is a list of numbers below 256.  Every \<^verbatim>\<open>raise\<close> of the
  decoding module and every exception of a builtin that the modelled code can meet is
  a value of \<open>py_error\<close>; a function that can raise returns \<open>py_error + 'a\<close>.
\<close>

type_synonym bytes = "nat list"

datatype py_error =
    WordlistRequired
  | UnexpectedTypeChange
  | ForbiddenCharacter char
  | SpecterTotalChanged
  | UnableToParseSpecter
  | LegacyTotalChanged
  | UnexpectedLegacyURError
  | UnableToParseLegacy
  | SettingsVersionNotSupported
  | MustInitializeSeed
  | WrongWordCount nat
  | PasswordsNotImplemented
  | InvalidSeedException
  | TypeError
  | IndexError
  | ValueError
  | KeyError
  | AttributeError
  | UnicodeEncodeError
  | BinasciiError
  | CollaboratorError

definition is_ascii :: "char \<Rightarrow> bool" where
  "is_ascii c = ((of_char c :: nat) < 128)"

text \<open>\<^verbatim>\<open>bytes.find\<close> of a single byte: the first position, \<open>None\<close> for \<^verbatim>\<open>-1\<close>.\<close>

fun find_char :: "char \<Rightarrow> string \<Rightarrow> nat option" where
  "find_char c [] = None"
| "find_char c (x # xs) = (if x = c then Some 0 else map_option Suc (find_char c xs))"

text \<open>
  \<^verbatim>\<open>str.strip()\<close> removes the characters for which \<^verbatim>\<open>str.isspace\<close> holds; below 256
  these are the code points 9 to 13, 28 to 32, 133 and 160.
\<close>

definition py_isspace :: "char \<Rightarrow> bool" where
  "py_isspace c = ((of_char c :: nat) \<in> set [9, 10, 11, 12, 13, 28, 29, 30, 31, 32, 133, 160])"

definition py_strip :: "string \<Rightarrow> string" where
  "py_strip s = rev (dropWhile py_isspace (rev (dropWhile py_isspace s)))"

text \<open>\<^verbatim>\<open>str.split(sep)\<close> for a separator of one character: never the empty list.\<close>

fun py_split :: "char \<Rightarrow> string \<Rightarrow> string list" where
  "py_split sep [] = [[]]"
| "py_split sep (c # cs) =
     (if c = sep then [] # py_split sep cs
      else (case py_split sep cs of
              [] \<Rightarrow> [[c]]
            | w # ws \<Rightarrow> (c # w) # ws))"

text \<open>\<^verbatim>\<open>str.replace(old, new)\<close> for \<open>old\<close> of one character.\<close>

definition py_replace :: "char \<Rightarrow> string \<Rightarrow> string \<Rightarrow> string" where
  "py_replace old new s = concat (map (\<lambda>c. if c = old then new else [c]) s)"

text \<open>
  Indexing a list, \<^verbatim>\<open>xs[i]\<close>.  Python counts an index below zero from the end of the
  list and raises \<^verbatim>\<open>IndexError\<close> outside \<^verbatim>\<open>-len(xs) <= i < len(xs)\<close>;
  \<open>py_index_pos\<close> is the position that is read, \<open>py_index\<close> the element.
\<close>

definition py_index_pos :: "'a list \<Rightarrow> int \<Rightarrow> nat option" where
  "py_index_pos xs i =
     (if 0 \<le> i
      then (if i < int (length xs) then Some (nat i) else None)
      else (if - int (length xs) \<le> i then Some (nat (int (length xs) + i)) else None))"

definition py_index :: "'a list \<Rightarrow> int \<Rightarrow> py_error + 'a" where
  "py_index xs i =
     (case py_index_pos xs i of
        None \<Rightarrow> Inl IndexError
      | Some k \<Rightarrow> Inr (xs ! k))"

definition is_digit :: "char \<Rightarrow> bool" where
  "is_digit c = (c \<in> set ''0123456789'')"

text \<open>
  \<^verbatim>\<open>int(s)\<close> for a string: white space around the literal is dropped (below 256 the
  code points 9 to 13, 32, 133 and 160), a sign may lead, and single underscores may
  stand between digits.  \<open>None\<close> is \<^verbatim>\<open>ValueError\<close>.  The limit that recent interpreters
  put on the number of digits is not modelled.
\<close>

definition int_isspace :: "char \<Rightarrow> bool" where
  "int_isspace c = ((of_char c :: nat) \<in> set [9, 10, 11, 12, 13, 32, 133, 160])"

fun int_digits :: "string \<Rightarrow> nat \<Rightarrow> nat option" where
  "int_digits [] acc = Some acc"
| "int_digits [c] acc =
     (case find_char c ''0123456789'' of
        None \<Rightarrow> None
      | Some d \<Rightarrow> Some (acc * 10 + d))"
| "int_digits (c # c' # cs) acc =
     (if c = CHR ''_''
      then (case find_char c' ''0123456789'' of
              None \<Rightarrow> None
            | Some d \<Rightarrow> int_digits cs (acc * 10 + d))
      else (case find_char c ''0123456789'' of
              None \<Rightarrow> None
            | Some d \<Rightarrow> int_digits (c' # cs) (acc * 10 + d)))"

definition int_unsigned :: "string \<Rightarrow> nat option" where
  "int_unsigned s =
     (case s of
        [] \<Rightarrow> None
      | c # cs \<Rightarrow>
          (case find_char c ''0123456789'' of
             None \<Rightarrow> None
           | Some d \<Rightarrow> int_digits cs d))"

definition py_int :: "string \<Rightarrow> int option" where
  "py_int s =
     (let t = rev (dropWhile int_isspace (rev (dropWhile int_isspace s)))
      in case t of
           [] \<Rightarrow> None
         | c # cs \<Rightarrow>
             if c = CHR ''-'' then map_option (\<lambda>n. - int n) (int_unsigned cs)
             else if c = CHR ''+'' then map_option int (int_unsigned cs)
             else map_option int (int_unsigned t))"

section \<open>The regular expressions of the module\<close>

text \<open>
  Each pattern of the module is a matcher of its own.  Under \<^verbatim>\<open>re.IGNORECASE\<close> a letter
  of a pattern matches both of its cases; below 256 no other character folds to an
  unaccented letter, and \<^verbatim>\<open>\d\<close> is the ten digits.  \<^verbatim>\<open>$\<close> matches at the end of the
  string and before a line feed that ends it.
\<close>

definition ascii_lower :: "char \<Rightarrow> char" where
  "ascii_lower c =
     (case map_of (zip ''ABCDEFGHIJKLMNOPQRSTUVWXYZ'' ''abcdefghijklmnopqrstuvwxyz'') c of
        None \<Rightarrow> c
      | Some l \<Rightarrow> l)"

text \<open>A literal at the start of the text, letters in either case: the text after it.\<close>

fun imatch_prefix :: "string \<Rightarrow> string \<Rightarrow> string option" where
  "imatch_prefix [] s = Some s"
| "imatch_prefix (p # ps) [] = None"
| "imatch_prefix (p # ps) (c # cs) =
     (if ascii_lower p = ascii_lower c then imatch_prefix ps cs else None)"

fun isearch :: "string \<Rightarrow> string \<Rightarrow> bool" where
  "isearch pat [] = (imatch_prefix pat [] \<noteq> None)"
| "isearch pat (c # cs) = (imatch_prefix pat (c # cs) \<noteq> None \<or> isearch pat cs)"

text \<open>\<^verbatim>\<open>sub in s\<close> for strings.\<close>

fun is_substring :: "string \<Rightarrow> string \<Rightarrow> bool" where
  "is_substring sub [] = (sub = [])"
| "is_substring sub (c # cs) = (take (length sub) (c # cs) = sub \<or> is_substring sub cs)"

definition line_feed :: char where
  "line_feed = CHR 0x0A"

definition at_end :: "string \<Rightarrow> bool" where
  "at_end r = (r = [] \<or> r = [line_feed])"

text \<open>\<^verbatim>\<open>^p(\d+)of(\d+) \<close>, letters in either case: group 1, group 2 and the text after the space.\<close>

definition re_p_of :: "string \<Rightarrow> (string \<times> string \<times> string) option" where
  "re_p_of s =
     (case imatch_prefix ''p'' s of
        None \<Rightarrow> None
      | Some r1 \<Rightarrow>
          (let g1 = takeWhile is_digit r1 in
           if g1 = [] then None
           else (case imatch_prefix ''of'' (dropWhile is_digit r1) of
                   None \<Rightarrow> None
                 | Some r2 \<Rightarrow>
                     (let g2 = takeWhile is_digit r2 in
                      if g2 = [] then None
                      else (case dropWhile is_digit r2 of
                              [] \<Rightarrow> None
                            | c # rest \<Rightarrow> if c = CHR '' '' then Some (g1, g2, rest) else None)))))"

definition base64_class :: "char \<Rightarrow> bool" where
  "base64_class c =
     (c \<in> set ''ABCDEFGHIJKLMNOPQRSTUVWXYZabcdefghijklmnopqrstuvwxyz0123456789+/='')"

text \<open>\<^verbatim>\<open>^p(\d+)of(\d+) ([A-Za-z0-9+\/=]+$)\<close>, letters in either case: the three groups.\<close>

definition re_specter_psbt :: "string \<Rightarrow> (string \<times> string \<times> string) option" where
  "re_specter_psbt s =
     (case re_p_of s of
        None \<Rightarrow> None
      | Some (g1, g2, rest) \<Rightarrow>
          (let g3 = takeWhile base64_class rest in
           if g3 \<noteq> [] \<and> at_end (dropWhile base64_class rest) then Some (g1, g2, g3)
           else None))"

text \<open>\<^verbatim>\<open>^p(\d+)of(\d+) (.+$)\<close>, letters in either case: the three groups.\<close>

definition re_specter_wallet :: "string \<Rightarrow> (string \<times> string \<times> string) option" where
  "re_specter_wallet s =
     (case re_p_of s of
        None \<Rightarrow> None
      | Some (g1, g2, rest) \<Rightarrow>
          (let g3 = takeWhile (\<lambda>c. c \<noteq> line_feed) rest in
           if g3 \<noteq> [] \<and> at_end (dropWhile (\<lambda>c. c \<noteq> line_feed) rest) then Some (g1, g2, g3)
           else None))"

text \<open>\<^verbatim>\<open>^UR:BYTES/(\d+)OF(\d+)\<close>, letters in either case: the two groups.\<close>

definition re_ur_bytes_of :: "string \<Rightarrow> (string \<times> string) option" where
  "re_ur_bytes_of s =
     (case imatch_prefix ''UR:BYTES/'' s of
        None \<Rightarrow> None
      | Some r1 \<Rightarrow>
          (let g1 = takeWhile is_digit r1 in
           if g1 = [] then None
           else (case imatch_prefix ''OF'' (dropWhile is_digit r1) of
                   None \<Rightarrow> None
                 | Some r2 \<Rightarrow>
                     (let g2 = takeWhile is_digit r2 in
                      if g2 = [] then None else Some (g1, g2)))))"

text \<open>
  \<^verbatim>\<open>^\{\"label\".*\"descriptor\"\:.*\<close>, letters in either case; \<^verbatim>\<open>.\<close> matches every
  character but the line feed.
\<close>

definition re_label_descriptor :: "string \<Rightarrow> bool" where
  "re_label_descriptor s =
     (case imatch_prefix (CHR ''{'' # CHR 0x22 # ''label'' @ [CHR 0x22]) s of
        None \<Rightarrow> False
      | Some r \<Rightarrow>
          isearch (CHR 0x22 # ''descriptor'' @ [CHR 0x22, CHR '':''])
            (takeWhile (\<lambda>c. c \<noteq> line_feed) r))"

text \<open>\<^verbatim>\<open>\d{48,96}\<close>, searched anywhere.\<close>

fun re_digits_48_96 :: "string \<Rightarrow> bool" where
  "re_digits_48_96 [] = False"
| "re_digits_48_96 (c # cs) =
     (48 \<le> length (takeWhile is_digit (c # cs)) \<or> re_digits_48_96 cs)"

text \<open>
  The address pattern \<^verbatim>\<open>((bc1|tb1|[123]|[mn])[a-zA-HJ-NP-Z0-9]{25,62})\<close>.  The four
  alternatives of group 2 start with different characters, so at most one of them can
  match at a position.
\<close>

definition address_class :: "char \<Rightarrow> bool" where
  "address_class c =
     (c \<in> set ''abcdefghijklmnopqrstuvwxyzABCDEFGHJKLMNPQRSTUVWXYZ0123456789'')"

definition address_prefix :: "string \<Rightarrow> (string \<times> string) option" where
  "address_prefix s =
     (if take 3 s = ''bc1'' then Some (''bc1'', drop 3 s)
      else if take 3 s = ''tb1'' then Some (''tb1'', drop 3 s)
      else (case s of
              [] \<Rightarrow> None
            | c # cs \<Rightarrow>
                if c \<in> set ''123'' then Some ([c], cs)
                else if c \<in> set ''mn'' then Some ([c], cs)
                else None))"

text \<open>The pattern matched at the start of the text: group 1 and group 2.\<close>

definition re_address_here :: "string \<Rightarrow> (string \<times> string) option" where
  "re_address_here s =
     (case address_prefix s of
        None \<Rightarrow> None
      | Some (g2, r) \<Rightarrow>
          (let body = take 62 (takeWhile address_class r) in
           if 25 \<le> length body then Some (g2 @ body, g2) else None))"

text \<open>\<^verbatim>\<open>re.search\<close> of the pattern: the leftmost match.\<close>

fun re_address_search :: "string \<Rightarrow> (string \<times> string) option" where
  "re_address_search [] = re_address_here []"
| "re_address_search (c # cs) =
     (case re_address_here (c # cs) of
        Some m \<Rightarrow> Some m
      | None \<Rightarrow> re_address_search cs)"

text \<open>The anchored pattern \<^verbatim>\<open>^((bc1|tb1|[123]|[mn])[a-zA-HJ-NP-Z0-9]{25,62})$\<close>.\<close>

definition re_address_anchored :: "string \<Rightarrow> (string \<times> string) option" where
  "re_address_anchored s =
     (case address_prefix s of
        None \<Rightarrow> None
      | Some (g2, r) \<Rightarrow>
          (let body = takeWhile address_class r in
           if 25 \<le> length body \<and> length body \<le> 62 \<and> at_end (dropWhile address_class r)
           then Some (g2 @ body, g2) else None))"

section \<open>Base64 of the standard library\<close>

text \<open>
  \<^verbatim>\<open>binascii.a2b_base64\<close> in its default, lenient mode: characters outside the alphabet
  are skipped, decoding stops at the padding that completes a quad, and an incomplete
  quad at the end is an error.  \<^verbatim>\<open>base64.b64decode\<close> is the same function after
  \<^verbatim>\<open>encode('ascii')\<close>.
\<close>

definition b64_alphabet :: string where
  "b64_alphabet = ''ABCDEFGHIJKLMNOPQRSTUVWXYZabcdefghijklmnopqrstuvwxyz0123456789+/''"

fun a2b_loop :: "string \<Rightarrow> nat \<Rightarrow> nat \<Rightarrow> nat \<Rightarrow> bytes \<Rightarrow> py_error + bytes" where
  "a2b_loop [] quad_pos leftchar pads out =
     (if quad_pos \<noteq> 0 then Inl BinasciiError else Inr out)"
| "a2b_loop (c # cs) quad_pos leftchar pads out =
     (if c = CHR ''='' then
        (if 2 \<le> quad_pos \<and> 4 \<le> quad_pos + (pads + 1) then Inr out
         else a2b_loop cs quad_pos leftchar (if 2 \<le> quad_pos then pads + 1 else pads) out)
      else (case find_char c b64_alphabet of
              None \<Rightarrow> a2b_loop cs quad_pos leftchar pads out
            | Some v \<Rightarrow>
                if quad_pos = 0 then a2b_loop cs 1 v 0 out
                else if quad_pos = 1
                  then a2b_loop cs 2 (v mod 16) 0 (out @ [leftchar * 4 + v div 16])
                else if quad_pos = 2
                  then a2b_loop cs 3 (v mod 4) 0 (out @ [leftchar * 16 + v div 4])
                else a2b_loop cs 0 0 0 (out @ [leftchar * 64 + v])))"

definition a2b_base64 :: "string \<Rightarrow> py_error + bytes" where
  "a2b_base64 s = (if \<not> list_all is_ascii s then Inl ValueError else a2b_loop s 0 0 0 [])"

definition b64decode :: "string \<Rightarrow> py_error + bytes" where
  "b64decode s = (if \<not> list_all is_ascii s then Inl ValueError else a2b_loop s 0 0 0 [])"

fun b64encode :: "bytes \<Rightarrow> string" where
  "b64encode [] = []"
| "b64encode [a] =
     [b64_alphabet ! (a div 4), b64_alphabet ! ((a mod 4) * 16), CHR ''='', CHR ''='']"
| "b64encode [a, b] =
     [b64_alphabet ! (a div 4), b64_alphabet ! ((a mod 4) * 16 + b div 16),
      b64_alphabet ! ((b mod 16) * 4), CHR ''='']"
| "b64encode (a # b # c # rest) =
     [b64_alphabet ! (a div 4), b64_alphabet ! ((a mod 4) * 16 + b div 16),
      b64_alphabet ! ((b mod 16) * 4 + c div 64), b64_alphabet ! (c mod 64)]
     @ b64encode rest"

section \<open>DecodeQR.base43Decode\<close>

definition base43_chars :: string where
  "base43_chars = ''0123456789ABCDEFGHIJKLMNOPQRSTUVWXYZ$*+-./:''"

text \<open>The loop \<^verbatim>\<open>for c in v[::-1]\<close>, run on the reversed input.\<close>

fun base43_long_value :: "string \<Rightarrow> nat \<Rightarrow> nat \<Rightarrow> py_error + nat" where
  "base43_long_value [] long_value power_of_base = Inr long_value"
| "base43_long_value (c # cs) long_value power_of_base =
     (case find_char c base43_chars of
        None \<Rightarrow> Inl (ForbiddenCharacter c)
      | Some digit \<Rightarrow>
          base43_long_value cs (long_value + digit * power_of_base) (power_of_base * 43))"

text \<open>The loop \<^verbatim>\<open>while long_value >= 256\<close> and the append that follows it.\<close>

function base43_result :: "nat \<Rightarrow> bytes \<Rightarrow> bytes" where
  "base43_result long_value result =
     (if long_value \<ge> 256
      then base43_result (long_value div 256) (result @ [long_value mod 256])
      else result @ [long_value])"
  by pat_completeness auto
termination
  by (relation "measure fst") auto

declare base43_result.simps [simp del]

definition base43Decode :: "string \<Rightarrow> py_error + bytes" where
  "base43Decode s =
     (if \<not> list_all is_ascii s then Inl UnicodeEncodeError
      else case base43_long_value (rev s) 0 1 of
             Inl e \<Rightarrow> Inl e
           | Inr long_value \<Rightarrow>
               (let result = base43_result long_value [];
                    nPad = length (takeWhile (\<lambda>c. c = base43_chars ! 0) s)
                in Inr (rev (result @ replicate nPad 0))))"

section \<open>QRType, DecodeQRStatus and the collaborators\<close>

datatype QRType =
    PSBTUR2 | PSBTSPECTER | PSBTURLEGACY | PSBTBASE64 | PSBTBASE43
  | SEEDSSQR | SEEDUR2 | SEEDMNEMONIC | SEED4LETTERMNEMONIC
  | SETTINGS | JSON | BITCOINADDRESSQR
  | SPECTERWALLETQR | URWALLETQR | BLUEWALLETQR
  | QRType_INVALID

datatype DecodeQRStatus = PART_COMPLETE | PART_EXISTING | COMPLETE | FALSE | INVALID

text \<open>
  A frame submission returns a status or raises, and in both cases leaves the object in
  the state it has reached: an exception does not undo the assignments before it.
\<close>

type_synonym 's outcome = "(py_error + DecodeQRStatus) \<times> 's"

datatype json_value =
    JObject "(string \<times> json_value) list"
  | JArray "json_value list"
  | JString string
  | JNumber string
  | JBool bool
  | JNull

text \<open>
  The libraries that the module calls and that are not part of it are parameters:
  \<^item> \<open>psbt_parse\<close>: \<^verbatim>\<open>psbt.PSBT.parse\<close> returns without raising;
  \<^item> \<open>json_loads\<close>: \<^verbatim>\<open>json.loads\<close>, \<open>None\<close> for \<^verbatim>\<open>JSONDecodeError\<close>;
  \<^item> \<open>Seed_new\<close>: the constructor \<^verbatim>\<open>Seed(mnemonic, passphrase="", wordlist=...)\<close> of the
    package, called with a string or with a list of words: \<open>None\<close> when it raises, else
    the truth value of the object;
  \<^item> \<open>bcur_decode\<close>: \<^verbatim>\<open>cbor_decode(bc32decode(...))\<close>, \<open>None\<close> when it raises;
  \<^item> \<open>ur_new\<close>, \<open>ur_receive_part\<close>, \<open>ur_is_complete\<close>, \<open>ur_result_data\<close>: the fountain
    decoder \<^verbatim>\<open>URDecoder\<close> and the unwrapping of its result, \<open>None\<close> when that raises.
\<close>

record 'u collaborators =
  psbt_parse :: "bytes \<Rightarrow> bool"
  json_loads :: "string \<Rightarrow> json_value option"
  Seed_new :: "string + string list \<Rightarrow> string list \<Rightarrow> bool option"
  bcur_decode :: "string \<Rightarrow> bytes option"
  ur_new :: 'u
  ur_receive_part :: "string \<Rightarrow> 'u \<Rightarrow> 'u"
  ur_is_complete :: "'u \<Rightarrow> bool"
  ur_result_data :: "'u \<Rightarrow> bytes option"

section \<open>DecodeQR.SegmentType and its helpers\<close>

definition isBase64 :: "string \<Rightarrow> bool" where
  "isBase64 s =
     (case b64decode s of
        Inl e \<Rightarrow> False
      | Inr decoded \<Rightarrow> b64encode decoded = s)"

definition isBase64PSBT :: "('u, 'x) collaborators_scheme \<Rightarrow> string \<Rightarrow> bool" where
  "isBase64PSBT X s =
     (if isBase64 s
      then (case a2b_base64 s of
              Inl e \<Rightarrow> False
            | Inr decoded \<Rightarrow> psbt_parse X decoded)
      else False)"

definition isBase43PSBT :: "('u, 'x) collaborators_scheme \<Rightarrow> string \<Rightarrow> bool" where
  "isBase43PSBT X s =
     (case base43Decode s of
        Inl e \<Rightarrow> False
      | Inr decoded \<Rightarrow> psbt_parse X decoded)"

definition isBitcoinAddress :: "string \<Rightarrow> bool" where
  "isBitcoinAddress s =
     (if imatch_prefix ''bitcoin:'' s \<noteq> None then True
      else if re_address_anchored s \<noteq> None then True
      else False)"

text \<open>
  \<open>wordlist = None\<close> is the call without a word list, as the segment-number helpers make
  it: the four-letter list is then empty, and the first membership test in the word
  list raises \<^verbatim>\<open>TypeError\<close>.
\<close>

definition SegmentType ::
  "('u, 'x) collaborators_scheme \<Rightarrow> string list option \<Rightarrow> string \<Rightarrow> py_error + QRType" where
  "SegmentType X wordlist s =
     (if imatch_prefix ''UR:CRYPTO-PSBT/'' s \<noteq> None then Inr PSBTUR2
      else if re_specter_psbt s \<noteq> None then Inr PSBTSPECTER
      else if imatch_prefix ''UR:BYTES/'' s \<noteq> None then Inr PSBTURLEGACY
      else if isBase64PSBT X s then Inr PSBTBASE64
      else
        (let desc_str = py_replace (CHR '' '') [] (py_replace line_feed [] s) in
         if re_p_of s \<noteq> None then Inr SPECTERWALLETQR
         else if re_label_descriptor desc_str then Inr SPECTERWALLETQR
         else
           (let FOUR_LETTER_WORDLIST =
                  (case wordlist of
                     None \<Rightarrow> []
                   | Some wl \<Rightarrow> map (\<lambda>word. py_strip (take 4 word)) wl)
            in
            if re_digits_48_96 s then Inr SEEDSSQR
            else if isBitcoinAddress s then Inr BITCOINADDRESSQR
            else
              (case wordlist of
                 None \<Rightarrow> Inl TypeError
               | Some wl \<Rightarrow>
                   if list_all (\<lambda>x. x \<in> set wl) (py_split (CHR '' '') (py_strip s))
                     then Inr SEEDMNEMONIC
                   else if list_all (\<lambda>x. x \<in> set FOUR_LETTER_WORDLIST)
                             (py_split (CHR '' '') (py_strip s))
                     then Inr SEED4LETTERMNEMONIC
                   else if isBase43PSBT X s then Inr PSBTBASE43
                   else if is_substring ''type=settings'' s then Inr SETTINGS
                   else Inr QRType_INVALID))))"

text \<open>\<^verbatim>\<open>"".join(self.segments)\<close>: an empty slot (\<^verbatim>\<open>None\<close>) raises \<^verbatim>\<open>TypeError\<close>.\<close>

definition join_segments :: "string option list \<Rightarrow> py_error + string" where
  "join_segments segs =
     (if None \<in> set segs then Inl TypeError else Inr (concat (map the segs)))"

section \<open>SpecterDecodePSBTQR\<close>

record SpecterDecodePSBTQR =
  sp_total_segments :: "int option"
  sp_collected_segments :: nat
  sp_complete :: bool
  sp_segments :: "string option list"

definition SpecterDecodePSBTQR_init :: SpecterDecodePSBTQR where
  "SpecterDecodePSBTQR_init =
     \<lparr>sp_total_segments = None, sp_collected_segments = 0, sp_complete = False,
      sp_segments = []\<rparr>"

definition SpecterDecodePSBTQR_currentSegmentNum ::
  "('u, 'x) collaborators_scheme \<Rightarrow> string \<Rightarrow> py_error + int" where
  "SpecterDecodePSBTQR_currentSegmentNum X segment =
     (case SegmentType X None segment of
        Inl e \<Rightarrow> Inl e
      | Inr t \<Rightarrow>
          if t = PSBTSPECTER then
            (case re_p_of segment of
               None \<Rightarrow> Inl UnableToParseSpecter
             | Some (g1, g2, rest) \<Rightarrow>
                 (case py_int g1 of None \<Rightarrow> Inl ValueError | Some n \<Rightarrow> Inr n))
          else Inl UnableToParseSpecter)"

definition SpecterDecodePSBTQR_totalSegmentNum ::
  "('u, 'x) collaborators_scheme \<Rightarrow> string \<Rightarrow> py_error + int" where
  "SpecterDecodePSBTQR_totalSegmentNum X segment =
     (case SegmentType X None segment of
        Inl e \<Rightarrow> Inl e
      | Inr t \<Rightarrow>
          if t = PSBTSPECTER then
            (case re_p_of segment of
               None \<Rightarrow> Inl UnableToParseSpecter
             | Some (g1, g2, rest) \<Rightarrow>
                 (case py_int g2 of None \<Rightarrow> Inl ValueError | Some n \<Rightarrow> Inr n))
          else Inl UnableToParseSpecter)"

definition SpecterDecodePSBTQR_parseSegment :: "string \<Rightarrow> string" where
  "SpecterDecodePSBTQR_parseSegment segment = py_strip (last (py_split (CHR '' '') segment))"

definition SpecterDecodePSBTQR_add ::
  "('u, 'x) collaborators_scheme \<Rightarrow> SpecterDecodePSBTQR \<Rightarrow> string
   \<Rightarrow> SpecterDecodePSBTQR outcome" where
  "SpecterDecodePSBTQR_add X self segment =
     (case SpecterDecodePSBTQR_totalSegmentNum X segment of
        Inl e \<Rightarrow> (Inl e, self)
      | Inr n_total \<Rightarrow>
          if sp_total_segments self \<noteq> None \<and> sp_total_segments self \<noteq> Some n_total
          then (Inl SpecterTotalChanged, self)
          else
            (let self1 =
                   (if sp_total_segments self = None
                    then self\<lparr>sp_total_segments := Some n_total,
                              sp_segments := replicate (nat n_total) None\<rparr>
                    else self)
             in case SpecterDecodePSBTQR_currentSegmentNum X segment of
                  Inl e \<Rightarrow> (Inl e, self1)
                | Inr cur \<Rightarrow>
                    (case py_index_pos (sp_segments self1) (cur - 1) of
                       None \<Rightarrow> (Inl IndexError, self1)
                     | Some i \<Rightarrow>
                         if sp_segments self1 ! i = None then
                           (let self2 = self1
                                  \<lparr>sp_segments := (sp_segments self1)
                                     [i := Some (SpecterDecodePSBTQR_parseSegment segment)],
                                   sp_collected_segments := sp_collected_segments self1 + 1\<rparr>
                            in if sp_total_segments self2
                                    = Some (int (sp_collected_segments self2))
                               then (Inr COMPLETE, self2\<lparr>sp_complete := True\<rparr>)
                               else (Inr PART_COMPLETE, self2))
                         else (Inr PART_EXISTING, self1))))"

definition SpecterDecodePSBTQR_getBase64Data ::
  "SpecterDecodePSBTQR \<Rightarrow> py_error + string option" where
  "SpecterDecodePSBTQR_getBase64Data self =
     (case join_segments (sp_segments self) of
        Inl e \<Rightarrow> Inl e
      | Inr base64 \<Rightarrow>
          if sp_complete self \<and> isBase64 base64 then Inr (Some base64) else Inr None)"

definition SpecterDecodePSBTQR_getData :: "SpecterDecodePSBTQR \<Rightarrow> py_error + bytes option" where
  "SpecterDecodePSBTQR_getData self =
     (case SpecterDecodePSBTQR_getBase64Data self of
        Inl e \<Rightarrow> Inl e
      | Inr None \<Rightarrow> Inr None
      | Inr (Some base64) \<Rightarrow>
          (case a2b_base64 base64 of Inl e \<Rightarrow> Inl e | Inr decoded \<Rightarrow> Inr (Some decoded)))"

section \<open>LegacyURDecodeQR\<close>

record LegacyURDecodeQR =
  lu_total_segments :: "int option"
  lu_collected_segments :: nat
  lu_complete :: bool
  lu_segments :: "string option list"

definition LegacyURDecodeQR_init :: LegacyURDecodeQR where
  "LegacyURDecodeQR_init =
     \<lparr>lu_total_segments = None, lu_collected_segments = 0, lu_complete = False,
      lu_segments = []\<rparr>"

definition LegacyURDecodeQR_currentSegmentNum ::
  "('u, 'x) collaborators_scheme \<Rightarrow> string \<Rightarrow> py_error + int" where
  "LegacyURDecodeQR_currentSegmentNum X segment =
     (case SegmentType X None segment of
        Inl e \<Rightarrow> Inl e
      | Inr t \<Rightarrow>
          if t = PSBTURLEGACY then
            (case re_ur_bytes_of segment of
               None \<Rightarrow> Inl UnexpectedLegacyURError
             | Some (g1, g2) \<Rightarrow>
                 (case py_int g1 of None \<Rightarrow> Inl ValueError | Some n \<Rightarrow> Inr n))
          else Inl UnableToParseLegacy)"

definition LegacyURDecodeQR_totalSegmentNum ::
  "('u, 'x) collaborators_scheme \<Rightarrow> string \<Rightarrow> py_error + int" where
  "LegacyURDecodeQR_totalSegmentNum X segment =
     (case SegmentType X None segment of
        Inl e \<Rightarrow> Inl e
      | Inr t \<Rightarrow>
          if t = PSBTURLEGACY then
            (case re_ur_bytes_of segment of
               None \<Rightarrow> Inr 1
             | Some (g1, g2) \<Rightarrow>
                 (case py_int g2 of None \<Rightarrow> Inl ValueError | Some n \<Rightarrow> Inr n))
          else Inl UnableToParseLegacy)"

definition LegacyURDecodeQR_parseSegment :: "string \<Rightarrow> string" where
  "LegacyURDecodeQR_parseSegment segment = py_strip (last (py_split (CHR ''/'') segment))"

definition LegacyURDecodeQR_add ::
  "('u, 'x) collaborators_scheme \<Rightarrow> LegacyURDecodeQR \<Rightarrow> string \<Rightarrow> LegacyURDecodeQR outcome" where
  "LegacyURDecodeQR_add X self segment =
     (case LegacyURDecodeQR_totalSegmentNum X segment of
        Inl e \<Rightarrow> (Inl e, self)
      | Inr n_total \<Rightarrow>
          if lu_total_segments self \<noteq> None \<and> lu_total_segments self \<noteq> Some n_total
          then (Inl LegacyTotalChanged, self)
          else
            (let self1 =
                   (if lu_total_segments self = None
                    then self\<lparr>lu_total_segments := Some n_total,
                              lu_segments := replicate (nat n_total) None\<rparr>
                    else self)
             in case LegacyURDecodeQR_currentSegmentNum X segment of
                  Inl e \<Rightarrow> (Inl e, self1)
                | Inr cur \<Rightarrow>
                    (case py_index_pos (lu_segments self1) (cur - 1) of
                       None \<Rightarrow> (Inl IndexError, self1)
                     | Some i \<Rightarrow>
                         if lu_segments self1 ! i = None then
                           (let self2 = self1
                                  \<lparr>lu_segments := (lu_segments self1)
                                     [i := Some (LegacyURDecodeQR_parseSegment segment)],
                                   lu_collected_segments := lu_collected_segments self1 + 1\<rparr>
                            in if lu_total_segments self2
                                    = Some (int (lu_collected_segments self2))
                               then (Inr COMPLETE, self2\<lparr>lu_complete := True\<rparr>)
                               else (Inr PART_COMPLETE, self2))
                         else (Inr PART_EXISTING, self1))))"

definition LegacyURDecodeQR_getData ::
  "('u, 'x) collaborators_scheme \<Rightarrow> LegacyURDecodeQR \<Rightarrow> py_error + bytes option" where
  "LegacyURDecodeQR_getData X self =
     (if \<not> lu_complete self then Inr None
      else (case join_segments (lu_segments self) of
              Inl e \<Rightarrow> Inl e
            | Inr bc32_cbor \<Rightarrow>
                (case bcur_decode X bc32_cbor of
                   None \<Rightarrow> Inl CollaboratorError
                 | Some raw \<Rightarrow> Inr (Some raw))))"

section \<open>Base64DecodeQR and Base43DecodeQR\<close>

record Base64DecodeQR =
  b64_total_segments :: nat
  b64_collected_segments :: nat
  b64_complete :: bool
  b64_data :: "string option"

definition Base64DecodeQR_init :: Base64DecodeQR where
  "Base64DecodeQR_init =
     \<lparr>b64_total_segments = 1, b64_collected_segments = 0, b64_complete = False,
      b64_data = None\<rparr>"

definition Base64DecodeQR_add :: "Base64DecodeQR \<Rightarrow> string \<Rightarrow> Base64DecodeQR outcome" where
  "Base64DecodeQR_add self segment =
     (if isBase64 segment
      then (Inr COMPLETE,
            self\<lparr>b64_complete := True, b64_data := Some segment, b64_collected_segments := 1\<rparr>)
      else (Inr INVALID, self))"

definition Base64DecodeQR_getData :: "Base64DecodeQR \<Rightarrow> py_error + bytes option" where
  "Base64DecodeQR_getData self =
     (case b64_data self of
        None \<Rightarrow> Inr None
      | Some base64 \<Rightarrow>
          (case a2b_base64 base64 of Inl e \<Rightarrow> Inl e | Inr decoded \<Rightarrow> Inr (Some decoded)))"

record Base43DecodeQR =
  b43_total_segments :: nat
  b43_collected_segments :: nat
  b43_complete :: bool
  b43_data :: "bytes option"

definition Base43DecodeQR_init :: Base43DecodeQR where
  "Base43DecodeQR_init =
     \<lparr>b43_total_segments = 1, b43_collected_segments = 0, b43_complete = False,
      b43_data = None\<rparr>"

definition Base43DecodeQR_add ::
  "('u, 'x) collaborators_scheme \<Rightarrow> Base43DecodeQR \<Rightarrow> string \<Rightarrow> Base43DecodeQR outcome" where
  "Base43DecodeQR_add X self segment =
     (if isBase43PSBT X segment
      then (case base43Decode segment of
              Inl e \<Rightarrow> (Inl e, self\<lparr>b43_complete := True\<rparr>)
            | Inr decoded \<Rightarrow>
                (Inr COMPLETE,
                 self\<lparr>b43_complete := True, b43_data := Some decoded,
                      b43_collected_segments := 1\<rparr>))
      else (Inr INVALID, self))"

definition Base43DecodeQR_getData :: "Base43DecodeQR \<Rightarrow> bytes option" where
  "Base43DecodeQR_getData self = b43_data self"

section \<open>SeedQR\<close>

record SeedQR =
  sq_total_segments :: nat
  sq_collected_segments :: nat
  sq_complete :: bool
  seed_phrase :: "string list"
  sq_wordlist :: "string list"

definition SeedQR_init :: "string list option \<Rightarrow> py_error + SeedQR" where
  "SeedQR_init wl =
     (case wl of
        None \<Rightarrow> Inl WordlistRequired
      | Some w \<Rightarrow>
          Inr \<lparr>sq_total_segments = 1, sq_collected_segments = 0, sq_complete = False,
               seed_phrase = [], sq_wordlist = w\<rparr>)"

definition is1224Phrase :: "SeedQR \<Rightarrow> bool" where
  "is1224Phrase self = (length (seed_phrase self) \<in> {12, 24})"

text \<open>
  The loop of the numeric mode over the group numbers \<^verbatim>\<open>range(0, num_words)\<close>: the
  phrase collected so far is returned also when a group raises.
\<close>

fun seed_numeric_loop ::
  "string list \<Rightarrow> string \<Rightarrow> nat list \<Rightarrow> string list \<Rightarrow> (py_error + unit) \<times> string list" where
  "seed_numeric_loop wl segment [] phrase = (Inr (), phrase)"
| "seed_numeric_loop wl segment (i # rest) phrase =
     (case py_int (take 4 (drop (i * 4) segment)) of
        None \<Rightarrow> (Inl ValueError, phrase)
      | Some index \<Rightarrow>
          (case py_index wl index of
             Inl e \<Rightarrow> (Inl e, phrase)
           | Inr word \<Rightarrow> seed_numeric_loop wl segment rest (phrase @ [word])))"

text \<open>\<^verbatim>\<open>list.index\<close>: the first position, \<open>None\<close> for \<^verbatim>\<open>ValueError\<close>.\<close>

fun list_index :: "'a list \<Rightarrow> 'a \<Rightarrow> nat option" where
  "list_index [] y = None"
| "list_index (x # xs) y = (if x = y then Some 0 else map_option Suc (list_index xs y))"

text \<open>
  The number of groups is \<^verbatim>\<open>int(len(segment) / 4)\<close>, a float division that is truncated:
  the integer quotient, for every length a string can have here.
\<close>

definition SeedQR_add ::
  "('u, 'x) collaborators_scheme \<Rightarrow> SeedQR \<Rightarrow> string \<Rightarrow> QRType \<Rightarrow> SeedQR outcome" where
  "SeedQR_add X self segment qr_type' =
     (let FOUR_LETTER_WORDLIST = map (\<lambda>word. py_strip (take 4 word)) (sq_wordlist self) in
      if qr_type' = SEEDSSQR then
        (let num_words = length segment div 4;
             (r, phrase) = seed_numeric_loop (sq_wordlist self) segment [0..<num_words] [];
             self1 = self\<lparr>seed_phrase := phrase\<rparr>
         in case r of
              Inl e \<Rightarrow> (Inr INVALID, self1)
            | Inr u \<Rightarrow>
                if length (seed_phrase self1) > 0 then
                  (if is1224Phrase self1 = False then (Inr INVALID, self1)
                   else (Inr COMPLETE, self1\<lparr>sq_complete := True, sq_collected_segments := 1\<rparr>))
                else (Inr INVALID, self1))
      else if qr_type' = SEEDMNEMONIC then
        (case Seed_new X (Inl segment) (sq_wordlist self) of
           None \<Rightarrow> (Inr INVALID, self)
         | Some seed \<Rightarrow>
             if \<not> seed then (Inr INVALID, self)
             else
               (let self1 = self\<lparr>seed_phrase := py_split (CHR '' '') (py_strip segment)\<rparr> in
                if is1224Phrase self1 = False then (Inr INVALID, self1)
                else (Inr COMPLETE, self1\<lparr>sq_complete := True, sq_collected_segments := 1\<rparr>)))
      else if qr_type' = SEED4LETTERMNEMONIC then
        (let sl = py_split (CHR '' '') (py_strip segment) in
         case those (map (\<lambda>s. case list_index FOUR_LETTER_WORDLIST s of
                                 None \<Rightarrow> None
                               | Some i \<Rightarrow>
                                   (case py_index (sq_wordlist self) (int i) of
                                      Inl e \<Rightarrow> None
                                    | Inr word \<Rightarrow> Some word)) sl) of
           None \<Rightarrow> (Inr INVALID, self)
         | Some words \<Rightarrow>
             (case Seed_new X (Inr words) (sq_wordlist self) of
                None \<Rightarrow> (Inr INVALID, self)
              | Some seed \<Rightarrow>
                  if \<not> seed then (Inr INVALID, self)
                  else
                    (let self1 = self\<lparr>seed_phrase := words\<rparr> in
                     if is1224Phrase self1 = False then (Inr INVALID, self1)
                     else (Inr COMPLETE,
                           self1\<lparr>sq_complete := True, sq_collected_segments := 1\<rparr>))))
      else (Inr INVALID, self))"

definition SeedQR_getSeedPhrase :: "SeedQR \<Rightarrow> string list" where
  "SeedQR_getSeedPhrase self = (if sq_complete self then seed_phrase self else [])"

section \<open>SettingsQR\<close>

text \<open>
  Modelled from the spec: the option values of \<^verbatim>\<open>SettingsConstants\<close> and \<^verbatim>\<open>SeedConstants\<close>,
  whose declarations are not among the sources.  The tri-state options are disabled,
  enabled and prompt; the others are the signature types, script types and
  coordinators that the abbreviation tables of \<^verbatim>\<open>SettingsQR.add\<close> name.  Each of them is
  a value that Python takes as true.
\<close>

datatype setting_constant =
    OPTION__DISABLED | OPTION__ENABLED | OPTION__PROMPT
  | SINGLE_SIG | MULTISIG
  | NATIVE_SEGWIT | NESTED_SEGWIT | TAPROOT | CUSTOM_DERIVATION
  | COORDINATOR__BLUE_WALLET | COORDINATOR__SPARROW | COORDINATOR__SPECTER_DESKTOP

text \<open>
  The values that the dictionary \<^verbatim>\<open>self.settings\<close> holds: the string of a pair that was
  not translated, a translated option, a list of them, and the dictionary of a
  category.  A dictionary is an association list in insertion order with distinct keys.
\<close>

datatype setting_value =
    SVStr string
  | SVConst setting_constant
  | SVList "setting_constant list"
  | SVDict "(string \<times> setting_value) list"

type_synonym settings_dict = "(string \<times> setting_value) list"

record SettingsQR =
  st_total_segments :: nat
  st_collected_segments :: nat
  st_complete :: bool
  settings :: settings_dict
  config_name :: "string option"

definition SettingsQR_init :: SettingsQR where
  "SettingsQR_init =
     \<lparr>st_total_segments = 1, st_collected_segments = 0, st_complete = False,
      settings = [], config_name = None\<rparr>"

text \<open>
  The loop over \<^verbatim>\<open>segment.split(" ")\<close>: an entry without \<^verbatim>\<open>=\<close> raises \<^verbatim>\<open>IndexError\<close>
  and leaves the pairs read before it in the dictionary.
\<close>

fun settings_entries :: "string list \<Rightarrow> settings_dict \<Rightarrow> (py_error + unit) \<times> settings_dict" where
  "settings_entries [] d = (Inr (), d)"
| "settings_entries (entry # rest) d =
     (case py_split (CHR ''='') entry of
        k # v # others \<Rightarrow>
          settings_entries rest (AList.update (py_strip k) (SVStr (py_strip v)) d)
      | _ \<Rightarrow> (Inl IndexError, d))"

definition map_abbreviated_enable :: "(string \<times> setting_constant) list" where
  "map_abbreviated_enable =
     [(''0'', OPTION__DISABLED), (''1'', OPTION__ENABLED), (''2'', OPTION__PROMPT)]"

definition map_abbreviated_sig_types :: "(string \<times> setting_constant) list" where
  "map_abbreviated_sig_types = [(''s'', SINGLE_SIG), (''m'', MULTISIG)]"

definition map_abbreviated_scripts :: "(string \<times> setting_constant) list" where
  "map_abbreviated_scripts =
     [(''na'', NATIVE_SEGWIT), (''ne'', NESTED_SEGWIT), (''tr'', TAPROOT),
      (''cu'', CUSTOM_DERIVATION)]"

definition map_abbreviated_coordinators :: "(string \<times> setting_constant) list" where
  "map_abbreviated_coordinators =
     [(''bw'', COORDINATOR__BLUE_WALLET), (''sw'', COORDINATOR__SPARROW),
      (''sd'', COORDINATOR__SPECTER_DESKTOP)]"

text \<open>
  The translation of one abbreviated value.  Its body is a \<^verbatim>\<open>try\<close> whose handler
  returns: a value that is not a string, and a category that is not a dictionary, end
  the call with what was assigned before.
\<close>

text \<open>
  \<^verbatim>\<open>if new_key_name: key = new_key_name\<close>: the key under which a translated value is
  stored in its category.
\<close>

definition translated_key :: "string \<Rightarrow> string option \<Rightarrow> string" where
  "translated_key key new_key_name =
     (case new_key_name of
        None \<Rightarrow> key
      | Some k \<Rightarrow> if k = [] then key else k)"

definition abbreviation_lookup ::
  "(string \<times> setting_constant) list \<Rightarrow> bool \<Rightarrow> string \<Rightarrow> setting_value option" where
  "abbreviation_lookup abbreviation_map is_list v =
     (if \<not> is_list then map_option SVConst (map_of abbreviation_map v)
      else map_option SVList (those (map (map_of abbreviation_map) (py_split (CHR '','') v))))"

definition convert_abbreviated_value ::
  "string \<Rightarrow> string \<Rightarrow> (string \<times> setting_constant) list \<Rightarrow> bool \<Rightarrow> string option
   \<Rightarrow> settings_dict \<Rightarrow> settings_dict" where
  "convert_abbreviated_value category key abbreviation_map is_list new_key_name d =
     (case map_of d key of
        None \<Rightarrow> d
      | Some (SVStr v) \<Rightarrow>
          (case abbreviation_lookup abbreviation_map is_list v of
             None \<Rightarrow> d
           | Some new_value \<Rightarrow>
               (let d1 = AList.delete key d;
                    key' = translated_key key new_key_name;
                    d2 = (if map_of d1 category = None
                          then AList.update category (SVDict []) d1 else d1)
                in case map_of d2 category of
                     Some (SVDict c) \<Rightarrow>
                       AList.update category (SVDict (AList.update key' new_value c)) d2
                   | _ \<Rightarrow> d2))
      | Some other \<Rightarrow> d)"

text \<open>
  The eight calls of \<open>convert_abbreviated_value\<close> in \<open>SettingsQR.add\<close>, in their order:
  category, key, abbreviation table, \<^verbatim>\<open>is_list\<close> and \<^verbatim>\<open>new_key_name\<close> of each.
\<close>

definition conversions ::
  "(string \<times> string \<times> (string \<times> setting_constant) list \<times> bool \<times> string option) list" where
  "conversions =
     [(''wallet'', ''coord'', map_abbreviated_coordinators, True, Some ''coordinators''),
      (''features'', ''xpub'', map_abbreviated_enable, False, Some ''xpub_export''),
      (''features'', ''sigs'', map_abbreviated_sig_types, True, Some ''sig_types''),
      (''features'', ''scripts'', map_abbreviated_scripts, True, Some ''script_types''),
      (''features'', ''xp_det'', map_abbreviated_enable, False, Some ''show_xpub_details''),
      (''features'', ''passphrase'', map_abbreviated_enable, False, None),
      (''features'', ''priv_warn'', map_abbreviated_enable, False, Some ''show_privacy_warnings''),
      (''features'', ''dire_warn'', map_abbreviated_enable, False, Some ''show_dire_warnings'')]"

definition convert_all :: "settings_dict \<Rightarrow> settings_dict" where
  "convert_all d =
     fold (\<lambda>(category, key, abbreviation_map, is_list, new_key_name).
             convert_abbreviated_value category key abbreviation_map is_list new_key_name)
       conversions d"

text \<open>\<^verbatim>\<open>not version or int(version) != 1\<close>, for the value popped under \<^verbatim>\<open>"version"\<close>.\<close>

definition version_supported :: "setting_value option \<Rightarrow> bool" where
  "version_supported version =
     (case version of
        Some (SVStr v) \<Rightarrow> v \<noteq> [] \<and> py_int v = Some 1
      | _ \<Rightarrow> False)"

definition SettingsQR_add :: "SettingsQR \<Rightarrow> string \<Rightarrow> QRType \<Rightarrow> SettingsQR outcome" where
  "SettingsQR_add self segment qr_type' =
     (let (r, d) = settings_entries (py_split (CHR '' '') segment) [];
          self1 = self\<lparr>settings := d\<rparr>
      in case r of
           Inl e \<Rightarrow> (Inr INVALID, self1)
         | Inr u \<Rightarrow>
             (let d1 = AList.delete ''type'' d;
                  version = map_of d1 ''version'';
                  d2 = AList.delete ''version'' d1;
                  self2 = self1\<lparr>settings := d2\<rparr>
              in if \<not> version_supported version then (Inr INVALID, self2)
                 else
                   (let name = (case map_of d2 ''name'' of
                                  Some (SVStr n) \<Rightarrow>
                                    Some (if n \<noteq> [] then py_replace (CHR ''_'') '' '' n else n)
                                | _ \<Rightarrow> None);
                        d3 = AList.delete ''name'' d2
                    in (Inr COMPLETE,
                        self2\<lparr>settings := convert_all d3, config_name := name,
                              st_complete := True, st_collected_segments := 1\<rparr>))))"

section \<open>BitcoinAddressQR\<close>

record BitcoinAddressQR =
  ba_total_segments :: nat
  ba_collected_segments :: nat
  ba_complete :: bool
  address :: "string option"
  address_type :: "string option"

definition BitcoinAddressQR_init :: BitcoinAddressQR where
  "BitcoinAddressQR_init =
     \<lparr>ba_total_segments = 1, ba_collected_segments = 0, ba_complete = False,
      address = None, address_type = None\<rparr>"

definition address_type_of :: "string \<Rightarrow> string option" where
  "address_type_of r =
     (if r = ''1'' then Some ''P2PKH-main''
      else if r = ''m'' \<or> r = ''n'' then Some ''P2PKH-test''
      else if r = ''3'' then Some ''P2SH-main''
      else if r = ''2'' then Some ''P2SH-test''
      else if r = ''bc1'' then Some ''Bech32-main''
      else if r = ''tb1'' then Some ''Bech32-test''
      else None)"

definition BitcoinAddressQR_add ::
  "BitcoinAddressQR \<Rightarrow> string \<Rightarrow> QRType \<Rightarrow> BitcoinAddressQR outcome" where
  "BitcoinAddressQR_add self segment qr_type' =
     (case re_address_search segment of
        None \<Rightarrow> (Inr INVALID, self)
      | Some (g1, g2) \<Rightarrow>
          (let self1 = self\<lparr>address := Some g1\<rparr> in
           case re_address_anchored g1 of
             None \<Rightarrow> (Inr INVALID, self1)
           | Some (h1, h2) \<Rightarrow>
               (Inr COMPLETE,
                self1\<lparr>ba_complete := True, ba_collected_segments := 1,
                      address_type := (case address_type_of h2 of
                                         None \<Rightarrow> address_type self1
                                       | Some ty \<Rightarrow> Some ty)\<rparr>)))"

definition BitcoinAddressQR_getAddress :: "BitcoinAddressQR \<Rightarrow> string option" where
  "BitcoinAddressQR_getAddress self =
     (if address self \<noteq> None then address self else None)"

definition BitcoinAddressQR_getAddressType :: "BitcoinAddressQR \<Rightarrow> string option" where
  "BitcoinAddressQR_getAddressType self =
     (if address self \<noteq> None
      then (if address_type self \<noteq> None then address_type self else Some ''Unknown'')
      else None)"

section \<open>SpecterDecodeWalletQR\<close>

record SpecterDecodeWalletQR =
  sw_total_segments :: "int option"
  sw_collected_segments :: nat
  sw_complete :: bool
  sw_segments :: "string option list"

definition SpecterDecodeWalletQR_init :: SpecterDecodeWalletQR where
  "SpecterDecodeWalletQR_init =
     \<lparr>sw_total_segments = None, sw_collected_segments = 0, sw_complete = False,
      sw_segments = []\<rparr>"

text \<open>
  The two segment-number helpers of this class have no \<^verbatim>\<open>raise\<close>: for a segment of
  another type they return \<^verbatim>\<open>None\<close>.
\<close>

definition SpecterDecodeWalletQR_currentSegmentNum ::
  "('u, 'x) collaborators_scheme \<Rightarrow> string \<Rightarrow> py_error + int option" where
  "SpecterDecodeWalletQR_currentSegmentNum X segment =
     (case SegmentType X None segment of
        Inl e \<Rightarrow> Inl e
      | Inr t \<Rightarrow>
          if t = SPECTERWALLETQR then
            (case re_p_of segment of
               None \<Rightarrow> Inr (Some 1)
             | Some (g1, g2, rest) \<Rightarrow>
                 (case py_int g1 of None \<Rightarrow> Inl ValueError | Some n \<Rightarrow> Inr (Some n)))
          else Inr None)"

definition SpecterDecodeWalletQR_totalSegmentNum ::
  "('u, 'x) collaborators_scheme \<Rightarrow> string \<Rightarrow> py_error + int option" where
  "SpecterDecodeWalletQR_totalSegmentNum X segment =
     (case SegmentType X None segment of
        Inl e \<Rightarrow> Inl e
      | Inr t \<Rightarrow>
          if t = SPECTERWALLETQR then
            (case re_p_of segment of
               None \<Rightarrow> Inr (Some 1)
             | Some (g1, g2, rest) \<Rightarrow>
                 (case py_int g2 of None \<Rightarrow> Inl ValueError | Some n \<Rightarrow> Inr (Some n)))
          else Inr None)"

definition SpecterDecodeWalletQR_parseSegment :: "string \<Rightarrow> string" where
  "SpecterDecodeWalletQR_parseSegment segment =
     (case re_specter_wallet segment of
        None \<Rightarrow> segment
      | Some (g1, g2, g3) \<Rightarrow> g3)"

text \<open>
  \<open>validateJson\<close> catches \<^verbatim>\<open>JSONDecodeError\<close> only: the \<^verbatim>\<open>TypeError\<close> of a join over an
  empty slot leaves it as an exception.
\<close>

definition validateJson ::
  "('u, 'x) collaborators_scheme \<Rightarrow> SpecterDecodeWalletQR \<Rightarrow> py_error + bool" where
  "validateJson X self =
     (case join_segments (sw_segments self) of
        Inl e \<Rightarrow> Inl e
      | Inr j \<Rightarrow> Inr (json_loads X j \<noteq> None))"

text \<open>
  \<^verbatim>\<open>"descriptor" in data\<close>: a key of an object, an element of an array, a substring of a
  string, and \<^verbatim>\<open>TypeError\<close> for the other values.
\<close>

definition descriptor_in :: "json_value \<Rightarrow> py_error + bool" where
  "descriptor_in data =
     (case data of
        JObject kvs \<Rightarrow> Inr (''descriptor'' \<in> fst ` set kvs)
      | JArray xs \<Rightarrow> Inr (JString ''descriptor'' \<in> set xs)
      | JString str \<Rightarrow> Inr (is_substring ''descriptor'' str)
      | _ \<Rightarrow> Inl TypeError)"

definition validateWalletDescriptor ::
  "('u, 'x) collaborators_scheme \<Rightarrow> SpecterDecodeWalletQR \<Rightarrow> py_error + bool" where
  "validateWalletDescriptor X self =
     (case validateJson X self of
        Inl e \<Rightarrow> Inl e
      | Inr ok \<Rightarrow>
          if ok then
            (case join_segments (sw_segments self) of
               Inl e \<Rightarrow> Inl e
             | Inr j \<Rightarrow>
                 (case json_loads X j of
                    None \<Rightarrow> Inl ValueError
                  | Some data \<Rightarrow> descriptor_in data))
          else Inr False)"

definition SpecterDecodeWalletQR_add ::
  "('u, 'x) collaborators_scheme \<Rightarrow> SpecterDecodeWalletQR \<Rightarrow> string
   \<Rightarrow> SpecterDecodeWalletQR outcome" where
  "SpecterDecodeWalletQR_add X self segment =
     (case SpecterDecodeWalletQR_totalSegmentNum X segment of
        Inl e \<Rightarrow> (Inl e, self)
      | Inr n_total \<Rightarrow>
          if sw_total_segments self \<noteq> None \<and> sw_total_segments self \<noteq> n_total
          then (Inl SpecterTotalChanged, self)
          else if sw_total_segments self = None \<and> n_total = None
          then (Inl TypeError, self)
          else
            (let self1 =
                   (if sw_total_segments self = None
                    then self\<lparr>sw_total_segments := n_total,
                              sw_segments := replicate (nat (the n_total)) None\<rparr>
                    else self)
             in case SpecterDecodeWalletQR_currentSegmentNum X segment of
                  Inl e \<Rightarrow> (Inl e, self1)
                | Inr None \<Rightarrow> (Inl TypeError, self1)
                | Inr (Some cur) \<Rightarrow>
                    (case py_index_pos (sw_segments self1) (cur - 1) of
                       None \<Rightarrow> (Inl IndexError, self1)
                     | Some i \<Rightarrow>
                         if sw_segments self1 ! i = None then
                           (let self2 = self1
                                  \<lparr>sw_segments := (sw_segments self1)
                                     [i := Some (SpecterDecodeWalletQR_parseSegment segment)],
                                   sw_collected_segments := sw_collected_segments self1 + 1\<rparr>
                            in if sw_total_segments self2
                                    = Some (int (sw_collected_segments self2))
                               then (case validateWalletDescriptor X self2 of
                                       Inl e \<Rightarrow> (Inl e, self2)
                                     | Inr ok \<Rightarrow>
                                         if ok then (Inr COMPLETE, self2\<lparr>sw_complete := True\<rparr>)
                                         else (Inr INVALID, self2))
                               else (Inr PART_COMPLETE, self2))
                         else (Inr PART_EXISTING, self1))))"

text \<open>
  \<^verbatim>\<open>data['descriptor']\<close>: the value under the key of an object, \<^verbatim>\<open>TypeError\<close> for an array
  or a string.
\<close>

definition SpecterDecodeWalletQR_getWalletDescriptor ::
  "('u, 'x) collaborators_scheme \<Rightarrow> SpecterDecodeWalletQR \<Rightarrow> py_error + json_value option" where
  "SpecterDecodeWalletQR_getWalletDescriptor X self =
     (case validateWalletDescriptor X self of
        Inl e \<Rightarrow> Inl e
      | Inr ok \<Rightarrow>
          if ok then
            (case join_segments (sw_segments self) of
               Inl e \<Rightarrow> Inl e
             | Inr j \<Rightarrow>
                 (case json_loads X j of
                    None \<Rightarrow> Inl ValueError
                  | Some (JObject kvs) \<Rightarrow>
                      (case map_of kvs ''descriptor'' of
                         None \<Rightarrow> Inl KeyError
                       | Some v \<Rightarrow> Inr (Some v))
                  | Some other \<Rightarrow> Inl TypeError))
          else Inr None)"

section \<open>DecodeQR\<close>

record 'u DecodeQR =
  complete :: bool
  qr_type :: "QRType option"
  ur_decoder :: 'u
  specter_qr :: SpecterDecodePSBTQR
  legacy_ur :: LegacyURDecodeQR
  base64_qr :: Base64DecodeQR
  base43_qr :: Base43DecodeQR
  address_qr :: BitcoinAddressQR
  specter_wallet_qr :: SpecterDecodeWalletQR
  settings_qr :: SettingsQR
  wordlist :: "string list"
  seedqr :: SeedQR

text \<open>
  The constructor with its keyword arguments \<^verbatim>\<open>qr_type\<close> and \<^verbatim>\<open>wordlist\<close>;
  \<open>DecodeQR_new\<close> is the object that it builds when the word list is given.
\<close>

definition DecodeQR_new ::
  "('u, 'x) collaborators_scheme \<Rightarrow> QRType option \<Rightarrow> string list \<Rightarrow> 'u DecodeQR" where
  "DecodeQR_new X qr_type_arg wl =
     \<lparr>complete = False, qr_type = qr_type_arg, ur_decoder = ur_new X,
      specter_qr = SpecterDecodePSBTQR_init, legacy_ur = LegacyURDecodeQR_init,
      base64_qr = Base64DecodeQR_init, base43_qr = Base43DecodeQR_init,
      address_qr = BitcoinAddressQR_init,
      specter_wallet_qr = SpecterDecodeWalletQR_init,
      settings_qr = SettingsQR_init, wordlist = wl,
      seedqr = \<lparr>sq_total_segments = 1, sq_collected_segments = 0,
                sq_complete = False, seed_phrase = [], sq_wordlist = wl\<rparr>\<rparr>"

definition DecodeQR_init ::
  "('u, 'x) collaborators_scheme \<Rightarrow> QRType option \<Rightarrow> string list option
   \<Rightarrow> py_error + 'u DecodeQR" where
  "DecodeQR_init X qr_type_arg wordlist_arg =
     (case wordlist_arg of
        None \<Rightarrow> Inl WordlistRequired
      | Some wl \<Rightarrow> Inr (DecodeQR_new X qr_type_arg wl))"

text \<open>
  The end of every branch of \<open>addString\<close>: \<^verbatim>\<open>if rt == DecodeQRStatus.COMPLETE:
  self.complete = True\<close>, then \<^verbatim>\<open>return rt\<close>; an exception of the decoder passes through.
\<close>

definition return_rt :: "py_error + DecodeQRStatus \<Rightarrow> 'u DecodeQR \<Rightarrow> 'u DecodeQR outcome" where
  "return_rt rt self = (rt, if rt = Inr COMPLETE then self\<lparr>complete := True\<rparr> else self)"

definition DecodeQR_addString ::
  "('u, 'x) collaborators_scheme \<Rightarrow> 'u DecodeQR \<Rightarrow> string option \<Rightarrow> 'u DecodeQR outcome" where
  "DecodeQR_addString X self0 qr_str_arg =
     (case qr_str_arg of
        None \<Rightarrow> (Inr FALSE, self0)
      | Some qr_str \<Rightarrow>
          (case SegmentType X (Some (wordlist self0)) qr_str of
             Inl e \<Rightarrow> (Inl e, self0)
           | Inr t \<Rightarrow>
               if qr_type self0 \<noteq> None \<and> qr_type self0 \<noteq> Some t
               then (Inl UnexpectedTypeChange, self0)
               else
                 (let self = (if qr_type self0 = None then self0\<lparr>qr_type := Some t\<rparr> else self0)
                  in
                  if qr_type self = Some PSBTUR2 then
                    (let self1 = self\<lparr>ur_decoder := ur_receive_part X qr_str (ur_decoder self)\<rparr>
                     in if ur_is_complete X (ur_decoder self1)
                        then (Inr COMPLETE, self1\<lparr>complete := True\<rparr>)
                        else (Inr PART_COMPLETE, self1))
                  else if qr_type self = Some PSBTSPECTER then
                    (let (rt, sub) = SpecterDecodePSBTQR_add X (specter_qr self) qr_str
                     in return_rt rt (self\<lparr>specter_qr := sub\<rparr>))
                  else if qr_type self = Some PSBTURLEGACY then
                    (let (rt, sub) = LegacyURDecodeQR_add X (legacy_ur self) qr_str
                     in return_rt rt (self\<lparr>legacy_ur := sub\<rparr>))
                  else if qr_type self = Some PSBTBASE64 then
                    (let (rt, sub) = Base64DecodeQR_add (base64_qr self) qr_str
                     in return_rt rt (self\<lparr>base64_qr := sub\<rparr>))
                  else if qr_type self = Some PSBTBASE43 then
                    (let (rt, sub) = Base43DecodeQR_add X (base43_qr self) qr_str
                     in return_rt rt (self\<lparr>base43_qr := sub\<rparr>))
                  else if qr_type self = Some SEEDSSQR then
                    (let (rt, sub) = SeedQR_add X (seedqr self) qr_str SEEDSSQR
                     in return_rt rt (self\<lparr>seedqr := sub\<rparr>))
                  else if qr_type self = Some SETTINGS then
                    (let (rt, sub) = SettingsQR_add (settings_qr self) qr_str SETTINGS
                     in return_rt rt (self\<lparr>settings_qr := sub\<rparr>))
                  else if qr_type self = Some SEEDMNEMONIC then
                    (let (rt, sub) = SeedQR_add X (seedqr self) qr_str SEEDMNEMONIC
                     in return_rt rt (self\<lparr>seedqr := sub\<rparr>))
                  else if qr_type self = Some SEED4LETTERMNEMONIC then
                    (let (rt, sub) = SeedQR_add X (seedqr self) qr_str SEED4LETTERMNEMONIC
                     in return_rt rt (self\<lparr>seedqr := sub\<rparr>))
                  else if qr_type self = Some BITCOINADDRESSQR then
                    (let (rt, sub) = BitcoinAddressQR_add (address_qr self) qr_str BITCOINADDRESSQR
                     in return_rt rt (self\<lparr>address_qr := sub\<rparr>))
                  else if qr_type self = Some SPECTERWALLETQR then
                    (let (rt, sub) = SpecterDecodeWalletQR_add X (specter_wallet_qr self) qr_str
                     in return_rt rt (self\<lparr>specter_wallet_qr := sub\<rparr>))
                  else (Inr INVALID, self))))"

definition DecodeQR_getDataPSBT ::
  "('u, 'x) collaborators_scheme \<Rightarrow> 'u DecodeQR \<Rightarrow> py_error + bytes option" where
  "DecodeQR_getDataPSBT X self =
     (if complete self then
        (if qr_type self = Some PSBTUR2 then
           (case ur_result_data X (ur_decoder self) of
              None \<Rightarrow> Inl CollaboratorError
            | Some d \<Rightarrow> Inr (Some d))
         else if qr_type self = Some PSBTSPECTER then
           SpecterDecodePSBTQR_getData (specter_qr self)
         else if qr_type self = Some PSBTURLEGACY then
           LegacyURDecodeQR_getData X (legacy_ur self)
         else if qr_type self = Some PSBTBASE64 then
           Base64DecodeQR_getData (base64_qr self)
         else if qr_type self = Some PSBTBASE43 then
           Inr (Base43DecodeQR_getData (base43_qr self))
         else Inr None)
      else Inr None)"

definition DecodeQR_getSeedPhrase :: "'u DecodeQR \<Rightarrow> string list" where
  "DecodeQR_getSeedPhrase self = SeedQR_getSeedPhrase (seedqr self)"

definition DecodeQR_get_settings_data :: "'u DecodeQR \<Rightarrow> settings_dict" where
  "DecodeQR_get_settings_data self = settings (settings_qr self)"

definition DecodeQR_get_settings_config_name :: "'u DecodeQR \<Rightarrow> string option" where
  "DecodeQR_get_settings_config_name self = config_name (settings_qr self)"

definition DecodeQR_getAddress :: "'u DecodeQR \<Rightarrow> string option" where
  "DecodeQR_getAddress self = BitcoinAddressQR_getAddress (address_qr self)"

definition DecodeQR_getAddressType :: "'u DecodeQR \<Rightarrow> string option" where
  "DecodeQR_getAddressType self = BitcoinAddressQR_getAddressType (address_qr self)"

definition DecodeQR_getWalletDescriptor ::
  "('u, 'x) collaborators_scheme \<Rightarrow> 'u DecodeQR \<Rightarrow> py_error + json_value option" where
  "DecodeQR_getWalletDescriptor X self =
     SpecterDecodeWalletQR_getWalletDescriptor X (specter_wallet_qr self)"

text \<open>A session: the frames submitted one after the other; a caller may go on after an exception.\<close>

fun DecodeQR_run ::
  "('u, 'x) collaborators_scheme \<Rightarrow> 'u DecodeQR \<Rightarrow> string option list \<Rightarrow> 'u DecodeQR" where
  "DecodeQR_run X self [] = self"
| "DecodeQR_run X self (f # fs) = DecodeQR_run X (snd (DecodeQR_addString X self f)) fs"

section \<open>The Seed model\<close>

text \<open>
  The libraries of the constructor are parameters: \<open>nfkd\<close> is
  \<^verbatim>\<open>unicodedata.normalize('NFKD', ...)\<close>, \<open>language_names\<close> the dictionary
  \<^verbatim>\<open>SettingsConstants.ALL_WORDLIST_LANGUAGE_ENGLISH__NAMES\<close>, and \<open>monero_seed_bytes\<close> is
  \<^verbatim>\<open>unhexlify(MoneroSeed(phrase, name).hex)\<close>, \<open>None\<close> when it raises.
\<close>

record seed_collaborators =
  nfkd :: "string \<Rightarrow> string"
  language_names :: "(string \<times> string) list"
  monero_seed_bytes :: "string \<Rightarrow> string \<Rightarrow> bytes option"

record Seed =
  wordlist_language_code :: string
  mnemonic' :: "string list"
  passphrase' :: "string option"
  seed_bytes :: "bytes option"

text \<open>\<^verbatim>\<open>' '.join(words)\<close> and \<^verbatim>\<open>str.split()\<close>, which splits at runs of white space.\<close>

fun join_space :: "string list \<Rightarrow> string" where
  "join_space [] = []"
| "join_space [w] = w"
| "join_space (w # ws) = w @ '' '' @ join_space ws"

fun split_whitespace :: "string \<Rightarrow> string \<Rightarrow> string list" where
  "split_whitespace [] cur = (if cur = [] then [] else [cur])"
| "split_whitespace (c # cs) cur =
     (if py_isspace c
      then (if cur = [] then split_whitespace cs [] else cur # split_whitespace cs [])
      else split_whitespace cs (cur @ [c]))"

definition generate_seed :: "seed_collaborators \<Rightarrow> Seed \<Rightarrow> py_error + Seed" where
  "generate_seed S self =
     (if passphrase' self \<noteq> None then Inl PasswordsNotImplemented
      else (case map_of (language_names S) (wordlist_language_code self) of
              None \<Rightarrow> Inl InvalidSeedException
            | Some name \<Rightarrow>
                (case monero_seed_bytes S (join_space (mnemonic' self)) name of
                   None \<Rightarrow> Inl InvalidSeedException
                 | Some b \<Rightarrow> Inr (self\<lparr>seed_bytes := Some b\<rparr>))))"

definition Seed_init ::
  "seed_collaborators \<Rightarrow> string list option \<Rightarrow> string option \<Rightarrow> string \<Rightarrow> py_error + Seed" where
  "Seed_init S mnemonic passphrase code =
     (case mnemonic of
        None \<Rightarrow> Inl MustInitializeSeed
      | Some ws \<Rightarrow>
          if ws = [] then Inl MustInitializeSeed
          else
            (let mnemonic_words = length ws in
             if mnemonic_words \<notin> {12, 13, 24, 25} then Inl (WrongWordCount mnemonic_words)
             else
               generate_seed S
                 \<lparr>wordlist_language_code = code,
                  mnemonic' = split_whitespace (nfkd S (py_strip (join_space ws))) [],
                  passphrase' = (case passphrase of
                                   None \<Rightarrow> None
                                 | Some p \<Rightarrow> if p \<noteq> [] then Some (nfkd S p) else None),
                  seed_bytes = None\<rparr>))"

section \<open>Sequences of frames and sample collaborators\<close>



text \<open>
  Collaborators for the evaluation of concrete inputs: a transaction parser that accepts
  the bytes that start with the magic \<^verbatim>\<open>psbt\<close> and \<^verbatim>\<open>0xff\<close>, a JSON reader that knows
  no document, a mnemonic validator and an unwrapper that always raise, and a fountain
  decoder without state.
\<close>

definition sample_collaborators :: "unit collaborators" where
  "sample_collaborators =
     \<lparr>psbt_parse = (\<lambda>b. take 5 b = [112, 115, 98, 116, 255]),
      json_loads = (\<lambda>s. None),
      Seed_new = (\<lambda>m w. None),
      bcur_decode = (\<lambda>s. None),
      ur_new = (),
      ur_receive_part = (\<lambda>s u. u),
      ur_is_complete = (\<lambda>u. False),
      ur_result_data = (\<lambda>u. None)\<rparr>"

definition sample_seed_collaborators :: seed_collaborators where
  "sample_seed_collaborators =
     \<lparr>nfkd = (\<lambda>s. s),
      language_names = [(''en'', ''English'')],
      monero_seed_bytes = (\<lambda>phrase name. Some [0])\<rparr>"

text \<open>
  The display name that \<open>SettingsQR.add\<close> pops from the dictionary: underscores become
  spaces when the name is not empty.
\<close>

definition settings_name :: "settings_dict \<Rightarrow> string option" where
  "settings_name d =
     (case map_of d ''name'' of
        Some (SVStr n) \<Rightarrow> Some (if n \<noteq> [] then py_replace (CHR ''_'') '' '' n else n)
      | _ \<Rightarrow> None)"

text \<open>
  For the statements about the numeric mode of \<open>SeedQR.add\<close>: the word that group \<open>i\<close>
  of the segment selects, \<open>None\<close> when \<^verbatim>\<open>int\<close> or the indexing of the word list raises, and
  the value of a string of decimal digits.
\<close>

definition seed_group_word :: "string list \<Rightarrow> string \<Rightarrow> nat \<Rightarrow> string option" where
  "seed_group_word wl segment i =
     (case py_int (take 4 (drop (i * 4) segment)) of
        None \<Rightarrow> None
      | Some index \<Rightarrow>
          (case py_index wl index of
             Inl e \<Rightarrow> None
           | Inr word \<Rightarrow> Some word))"

definition decimal_value :: "string \<Rightarrow> nat" where
  "decimal_value g = foldl (\<lambda>acc c. acc * 10 + (of_char c - 48)) 0 g"

text \<open>The seed decoder of a session over the three-word list of the examples.\<close>

definition sample_seedqr :: SeedQR where
  "sample_seedqr =
     \<lparr>sq_total_segments = 1, sq_collected_segments = 0, sq_complete = False,
      seed_phrase = [], sq_wordlist = [''zero'', ''one'', ''two'']\<rparr>"

text \<open>
  For the statements about values without a translation: the pair \<open>key\<close>, \<open>v\<close> is still
  in the flat dictionary and the category holds nothing under the translated key; and
  every value of a dictionary is a string.
\<close>

definition kept ::
  "string \<Rightarrow> string \<Rightarrow> string \<Rightarrow> string \<Rightarrow> settings_dict \<Rightarrow> bool" where
  "kept category key tk v d \<longleftrightarrow>
     map_of d key = Some (SVStr v)
     \<and> (\<forall>c. map_of d category = Some (SVDict c) \<longrightarrow> map_of c tk = None)"

definition all_strings :: "settings_dict \<Rightarrow> bool" where
  "all_strings d \<longleftrightarrow> (\<forall>k x. map_of d k = Some x \<longrightarrow> (\<exists>s. x = SVStr s))"





text \<open>The characters of a Base64 text: the alphabet and the padding character.\<close>

definition b64_char :: "char \<Rightarrow> bool" where
  "b64_char c \<longleftrightarrow> c \<in> set b64_alphabet \<or> c = CHR ''=''"

text \<open>
  For the statements about the accessors: what holds of the wallet reassembler and of
  the session in every state that frames can lead to.  The number of collected
  segments is the number of filled slots, the slots are as many as the total says, and
  a set of segments that validates as a wallet descriptor belongs to a complete
  reassembler; a complete seed decoder, a stored address and a complete wallet
  reassembler belong to a complete session that is locked to their type.
\<close>

definition wallet_inv :: "('u, 'x) collaborators_scheme \<Rightarrow> SpecterDecodeWalletQR \<Rightarrow> bool" where
  "wallet_inv X W \<longleftrightarrow>
     (case sw_total_segments W of
        None \<Rightarrow> sw_segments W = []
      | Some t \<Rightarrow> length (sw_segments W) = nat t)
     \<and> sw_collected_segments W = length (filter (\<lambda>x. x \<noteq> None) (sw_segments W))
     \<and> (sw_segments W \<noteq> [] \<and> validateWalletDescriptor X W = Inr True \<longrightarrow> sw_complete W)"

definition session_inv :: "('u, 'x) collaborators_scheme \<Rightarrow> 'u DecodeQR \<Rightarrow> bool" where
  "session_inv X self \<longleftrightarrow>
     (sq_complete (seedqr self) \<longrightarrow>
        complete self
        \<and> (qr_type self = Some SEEDSSQR \<or> qr_type self = Some SEEDMNEMONIC
           \<or> qr_type self = Some SEED4LETTERMNEMONIC))
     \<and> (address (address_qr self) \<noteq> None \<longrightarrow>
          complete self \<and> qr_type self = Some BITCOINADDRESSQR)
     \<and> (sw_complete (specter_wallet_qr self) \<longrightarrow>
          complete self \<and> qr_type self = Some SPECTERWALLETQR)
     \<and> wallet_inv X (specter_wallet_qr self)"





section \<open>Properties of the base43 codec\<close>

lemma base43_chars_zero: "base43_chars ! 0 = CHR ''0''"
  by (simp add: base43_chars_def)

lemma find_char_zero: "find_char (CHR ''0'') base43_chars = Some 0"
  by (simp add: base43_chars_def)

lemma base43_long_value_zeros:
  "base43_long_value (replicate n (CHR ''0'')) 0 p = Inr 0"
  by (induction n arbitrary: p) (simp_all add: find_char_zero)

lemma is_ascii_zero: "is_ascii (CHR ''0'')"
  by (simp add: is_ascii_def)

text \<open>
  C4, as the claim states it, fails: the decode of \<^verbatim>\<open>"000"\<close> is not the three bytes
  \<^verbatim>\<open>b"\x00\x00\x00"\<close>.
\<close>

theorem base43Decode_000_not_three_bytes:
  "base43Decode ''000'' \<noteq> Inr [0, 0, 0]"
  by (simp add: base43Decode_def base43_chars_def is_ascii_def base43_result.simps)

text \<open>
  C4 (amended): the base43 decode of a string of \<open>n\<close> zero characters is \<open>n + 1\<close> zero
  bytes: one \<^verbatim>\<open>0x00\<close> for each leading zero character, after the byte that is always
  appended for the remaining value; so the decode of \<^verbatim>\<open>"000"\<close> is the four bytes
  \<^verbatim>\<open>b"\x00\x00\x00\x00"\<close>.
\<close>

theorem base43Decode_zeros:
  "base43Decode (replicate n (CHR ''0'')) = Inr (replicate (Suc n) 0)
   \<and> base43Decode ''000'' = Inr [0, 0, 0, 0]"
proof -
  have gen: "base43Decode (replicate m (CHR ''0'')) = Inr (replicate (Suc m) 0)" for m
  proof -
    have "list_all is_ascii (replicate m (CHR ''0''))"
      by (simp add: list_all_iff is_ascii_zero)
    moreover have "takeWhile (\<lambda>c. c = CHR ''0'') (replicate m (CHR ''0'')) = replicate m (CHR ''0'')"
      by simp
    moreover have "base43_result 0 [] = [0]"
      by (simp add: base43_result.simps)
    ultimately show ?thesis
      by (simp add: base43Decode_def base43_long_value_zeros base43_chars_zero
          replicate_append_same)
  qed
  have "''000'' = replicate 3 (CHR ''0'')"
    by (simp add: numeral_3_eq_3)
  then have "base43Decode ''000'' = Inr (replicate (Suc 3) 0)"
    using gen [of 3] by simp
  then have "base43Decode ''000'' = Inr [0, 0, 0, 0]"
    by (simp add: numeral_3_eq_3)
  with gen [of n] show ?thesis by simp
qed

section \<open>The settings decoder on concrete frames\<close>

lemma SettingsQR_add_unfold:
  assumes "settings_entries (py_split (CHR '' '') segment) [] = (r, d)"
  shows "SettingsQR_add self segment t =
     (case r of
        Inl e \<Rightarrow> (Inr INVALID, self\<lparr>settings := d\<rparr>)
      | Inr u \<Rightarrow>
          if \<not> version_supported (map_of (AList.delete ''type'' d) ''version'')
          then (Inr INVALID, self\<lparr>settings := AList.delete ''version'' (AList.delete ''type'' d)\<rparr>)
          else (Inr COMPLETE,
                self\<lparr>settings := convert_all
                        (AList.delete ''name'' (AList.delete ''version'' (AList.delete ''type'' d))),
                     config_name := settings_name (AList.delete ''version'' (AList.delete ''type'' d)),
                     st_complete := True, st_collected_segments := 1\<rparr>))"
  unfolding SettingsQR_add_def assms settings_name_def
  by (simp add: Let_def split: sum.split)

lemma My_Wallet_entries:
  "settings_entries (py_split (CHR '' '') ''type=settings version=1 name=My_Wallet xpub=1'') []
   = (Inr (), [(''type'', SVStr ''settings''), (''version'', SVStr ''1''),
               (''name'', SVStr ''My_Wallet''), (''xpub'', SVStr ''1'')])"
  by code_simp

lemma My_Wallet_converted:
  "convert_all (AList.delete ''name'' (AList.delete ''version'' (AList.delete ''type''
     [(''type'', SVStr ''settings''), (''version'', SVStr ''1''),
      (''name'', SVStr ''My_Wallet''), (''xpub'', SVStr ''1'')])))
   = [(''features'', SVDict [(''xpub_export'', SVConst OPTION__ENABLED)])]"
  by code_simp

lemma My_Wallet_version:
  "version_supported (map_of (AList.delete ''type''
     [(''type'', SVStr ''settings''), (''version'', SVStr ''1''),
      (''name'', SVStr ''My_Wallet''), (''xpub'', SVStr ''1'')]) ''version'')"
  by code_simp

lemma My_Wallet_name:
  "settings_name (AList.delete ''version'' (AList.delete ''type''
     [(''type'', SVStr ''settings''), (''version'', SVStr ''1''),
      (''name'', SVStr ''My_Wallet''), (''xpub'', SVStr ''1'')])) = Some ''My Wallet''"
  by code_simp

lemma version_2_entries:
  "settings_entries (py_split (CHR '' '') ''type=settings version=2'') []
   = (Inr (), [(''type'', SVStr ''settings''), (''version'', SVStr ''2'')])"
  by code_simp

lemma version_2_unsupported:
  "\<not> version_supported (map_of (AList.delete ''type''
       [(''type'', SVStr ''settings''), (''version'', SVStr ''2'')]) ''version'')"
  by code_simp

lemma version_2_rest:
  "AList.delete ''version'' (AList.delete ''type''
     [(''type'', SVStr ''settings''), (''version'', SVStr ''2'')]) = []"
  by code_simp

text \<open>
  C8: the settings frame \<^verbatim>\<open>type=settings version=1 name=My_Wallet xpub=1\<close> yields Complete,
  the display name \<^verbatim>\<open>My Wallet\<close> and a settings dictionary whose category \<^verbatim>\<open>features\<close>
  maps \<^verbatim>\<open>xpub_export\<close> to the enabled option; the frame \<^verbatim>\<open>type=settings version=2\<close>
  yields Invalid.  Both hold from every state of the decoder.
\<close>

theorem SettingsQR_add_examples:
  "SettingsQR_add self ''type=settings version=1 name=My_Wallet xpub=1'' t =
     (Inr COMPLETE,
      self\<lparr>settings := [(''features'', SVDict [(''xpub_export'', SVConst OPTION__ENABLED)])],
           config_name := Some ''My Wallet'', st_complete := True, st_collected_segments := 1\<rparr>)
   \<and> SettingsQR_add self ''type=settings version=2'' t = (Inr INVALID, self\<lparr>settings := []\<rparr>)"
proof
  show "SettingsQR_add self ''type=settings version=1 name=My_Wallet xpub=1'' t =
     (Inr COMPLETE,
      self\<lparr>settings := [(''features'', SVDict [(''xpub_export'', SVConst OPTION__ENABLED)])],
           config_name := Some ''My Wallet'', st_complete := True, st_collected_segments := 1\<rparr>)"
    unfolding SettingsQR_add_unfold [OF My_Wallet_entries] My_Wallet_converted My_Wallet_name
    using My_Wallet_version by simp
  show "SettingsQR_add self ''type=settings version=2'' t = (Inr INVALID, self\<lparr>settings := []\<rparr>)"
    unfolding SettingsQR_add_unfold [OF version_2_entries] version_2_rest
    using version_2_unsupported by simp
qed

section \<open>Fatal errors\<close>

text \<open>
  C2: in a session whose type is locked, a frame that is classified as another type
  makes \<open>addString\<close> raise; the result is the exception, not a status, and in
  particular not the status Invalid.
\<close>

theorem addString_type_change:
  assumes "qr_type self = Some t"
      and "SegmentType X (Some (wordlist self)) frame = Inr t'"
      and "t' \<noteq> t"
  shows "DecodeQR_addString X self (Some frame) = (Inl UnexpectedTypeChange, self)
         \<and> (\<forall>status. fst (DecodeQR_addString X self (Some frame)) \<noteq> Inr status)"
  using assms by (simp add: DecodeQR_addString_def)

theorem addString_type_change_witness:
  "DecodeQR_addString sample_collaborators
     (DecodeQR_new sample_collaborators (Some PSBTSPECTER) [''abandon''])
     (Some ''UR:CRYPTO-PSBT/x'')
   = (Inl UnexpectedTypeChange,
      DecodeQR_new sample_collaborators (Some PSBTSPECTER) [''abandon''])"
proof -
  have h1: "qr_type (DecodeQR_new sample_collaborators (Some PSBTSPECTER) [''abandon''])
            = Some PSBTSPECTER"
    by (simp add: DecodeQR_new_def)
  have h2: "SegmentType sample_collaborators
      (Some (wordlist (DecodeQR_new sample_collaborators (Some PSBTSPECTER) [''abandon''])))
      ''UR:CRYPTO-PSBT/x'' = Inr PSBTUR2"
    by code_simp
  have h3: "PSBTUR2 \<noteq> PSBTSPECTER" by simp
  show ?thesis using addString_type_change [OF h1 h2 h3] by simp
qed

text \<open>
  C3: once the first frame has set \<open>total_segments\<close> of a Specter PSBT reassembly, a
  frame that reports another total makes \<open>add\<close> raise the segment-total error; no status
  is returned.  The session passes the exception on.
\<close>

theorem SpecterDecodePSBTQR_add_total_changed:
  assumes "sp_total_segments self = Some n"
      and "SpecterDecodePSBTQR_totalSegmentNum X segment = Inr m"
      and "m \<noteq> n"
  shows "SpecterDecodePSBTQR_add X self segment = (Inl SpecterTotalChanged, self)"
  using assms by (simp add: SpecterDecodePSBTQR_add_def)

lemma add_p1of3:
  "SpecterDecodePSBTQR_add sample_collaborators SpecterDecodePSBTQR_init ''p1of3 AAAA''
   = (Inr PART_COMPLETE,
      \<lparr>sp_total_segments = Some 3, sp_collected_segments = 1, sp_complete = False,
       sp_segments = [Some ''AAAA'', None, None]\<rparr>)"
  by code_simp

lemma total_p2of5:
  "SpecterDecodePSBTQR_totalSegmentNum sample_collaborators ''p2of5 BBBB'' = Inr 5"
  by code_simp

theorem SpecterDecodePSBTQR_add_total_changed_witness:
  "SpecterDecodePSBTQR_add sample_collaborators
     (snd (SpecterDecodePSBTQR_add sample_collaborators SpecterDecodePSBTQR_init ''p1of3 AAAA''))
     ''p2of5 BBBB''
   = (Inl SpecterTotalChanged,
      \<lparr>sp_total_segments = Some 3, sp_collected_segments = 1, sp_complete = False,
       sp_segments = [Some ''AAAA'', None, None]\<rparr>)"
proof -
  have h1: "sp_total_segments
      \<lparr>sp_total_segments = Some 3, sp_collected_segments = 1, sp_complete = False,
       sp_segments = [Some ''AAAA'', None, None]\<rparr> = Some 3"
    by simp
  have h3: "(5::int) \<noteq> 3" by simp
  show ?thesis
    unfolding add_p1of3 snd_conv
    by (rule SpecterDecodePSBTQR_add_total_changed [OF h1 total_p2of5 h3])
qed

lemma DecodeQR_addString_total_changed:
  assumes "qr_type self = Some PSBTSPECTER"
      and "SegmentType X (Some (wordlist self)) frame = Inr PSBTSPECTER"
      and "sp_total_segments (specter_qr self) = Some n"
      and "SpecterDecodePSBTQR_totalSegmentNum X frame = Inr m"
      and "m \<noteq> n"
  shows "DecodeQR_addString X self (Some frame) = (Inl SpecterTotalChanged, self)"
  using assms
  by (simp add: DecodeQR_addString_def SpecterDecodePSBTQR_add_def return_rt_def)

section \<open>The word counts of the Seed model\<close>

lemma generate_seed_errors:
  "generate_seed S self = Inl e \<Longrightarrow> e = PasswordsNotImplemented \<or> e = InvalidSeedException"
  by (auto simp: generate_seed_def split: if_splits option.splits)

lemma SeedQR_add_complete_1224:
  "SeedQR_add X self segment t = (Inr COMPLETE, self') \<Longrightarrow> length (seed_phrase self') \<in> {12, 24}"
  by (auto simp: SeedQR_add_def Let_def is1224Phrase_def
      split: if_splits prod.splits sum.splits option.splits)

text \<open>
  C9: the constructor of the Seed model raises one of its two word-count errors exactly
  when the mnemonic is absent, empty or of a word count other than 12, 13, 24 and 25;
  a mnemonic of 12, 13, 24 or 25 words passes this check, and the constructor returns
  the seed when no passphrase is given and the Monero library accepts the phrase.  The
  decoders of the QR module, for their part, report Complete only for phrases of 12 or
  24 words.
\<close>

theorem Seed_init_word_count:
  "((\<exists>e. Seed_init S mnemonic passphrase code = Inl e
          \<and> (e = MustInitializeSeed \<or> (\<exists>n. e = WrongWordCount n)))
      \<longleftrightarrow> \<not> (\<exists>ws. mnemonic = Some ws \<and> length ws \<in> {12, 13, 24, 25}))
   \<and> (\<forall>ws name b.
         mnemonic = Some ws \<and> length ws \<in> {12, 13, 24, 25}
         \<and> (passphrase = None \<or> passphrase = Some [])
         \<and> map_of (language_names S) code = Some name
         \<and> monero_seed_bytes S
              (join_space (split_whitespace (nfkd S (py_strip (join_space ws))) [])) name = Some b
         \<longrightarrow> (\<exists>seed. Seed_init S mnemonic passphrase code = Inr seed
                     \<and> seed_bytes seed = Some b))
   \<and> (\<forall>X self segment t self'.
         SeedQR_add X self segment t = (Inr COMPLETE, self')
         \<longrightarrow> length (seed_phrase self') \<in> {12, 24})"
proof (intro conjI)
  show "(\<exists>e. Seed_init S mnemonic passphrase code = Inl e
          \<and> (e = MustInitializeSeed \<or> (\<exists>n. e = WrongWordCount n)))
      \<longleftrightarrow> \<not> (\<exists>ws. mnemonic = Some ws \<and> length ws \<in> {12, 13, 24, 25})"
  proof (cases mnemonic)
    case None
    then show ?thesis by (simp add: Seed_init_def)
  next
    case (Some ws)
    show ?thesis
    proof (cases "length ws \<in> {12, 13, 24, 25}")
      case True
      then have ne: "ws \<noteq> []" by auto
      have "Seed_init S mnemonic passphrase code \<noteq> Inl MustInitializeSeed"
           "\<And>n. Seed_init S mnemonic passphrase code \<noteq> Inl (WrongWordCount n)"
        using True ne Some generate_seed_errors [of S _ MustInitializeSeed]
          generate_seed_errors [of S _ "WrongWordCount _"]
        by (auto simp: Seed_init_def Let_def)
      with True Some show ?thesis by auto
    next
      case False
      with Some show ?thesis by (auto simp: Seed_init_def Let_def)
    qed
  qed
  show "\<forall>ws name b.
         mnemonic = Some ws \<and> length ws \<in> {12, 13, 24, 25}
         \<and> (passphrase = None \<or> passphrase = Some [])
         \<and> map_of (language_names S) code = Some name
         \<and> monero_seed_bytes S
              (join_space (split_whitespace (nfkd S (py_strip (join_space ws))) [])) name = Some b
         \<longrightarrow> (\<exists>seed. Seed_init S mnemonic passphrase code = Inr seed
                     \<and> seed_bytes seed = Some b)"
    by (auto simp: Seed_init_def Let_def generate_seed_def split: option.splits if_splits)
  show "\<forall>X self segment t self'.
         SeedQR_add X self segment t = (Inr COMPLETE, self')
         \<longrightarrow> length (seed_phrase self') \<in> {12, 24}"
    using SeedQR_add_complete_1224 by blast
qed

lemma twelve_words: "length (replicate 12 ''a'') \<in> {12, 13, 24, 25::nat}" by simp
lemma sample_bytes:
  "monero_seed_bytes sample_seed_collaborators
     (join_space (split_whitespace
        (nfkd sample_seed_collaborators (py_strip (join_space (replicate 12 ''a'')))) []))
     ''English'' = Some [0]"
  by (simp add: sample_seed_collaborators_def)
lemma sample_name: "map_of (language_names sample_seed_collaborators) ''en'' = Some ''English''"
  by (simp add: sample_seed_collaborators_def)

theorem Seed_init_word_count_witness:
  "(\<exists>seed. Seed_init sample_seed_collaborators (Some (replicate 12 ''a'')) None ''en'' = Inr seed
       \<and> seed_bytes seed = Some [0])
   \<and> (\<exists>e. Seed_init sample_seed_collaborators (Some (replicate 14 ''a'')) None ''en'' = Inl e)
   \<and> (\<exists>e. Seed_init sample_seed_collaborators None None ''en'' = Inl e)"
proof (intro conjI)
  show "\<exists>seed. Seed_init sample_seed_collaborators (Some (replicate 12 ''a'')) None ''en'' = Inr seed
       \<and> seed_bytes seed = Some [0]"
    using Seed_init_word_count [of sample_seed_collaborators "Some (replicate 12 ''a'')" None "''en''"]
      twelve_words sample_bytes sample_name by blast
  have "\<not> (\<exists>ws. Some (replicate 14 ''a'') = Some ws \<and> length ws \<in> {12, 13, 24, 25::nat})"
    by simp
  then show "\<exists>e. Seed_init sample_seed_collaborators (Some (replicate 14 ''a'')) None ''en'' = Inl e"
    using Seed_init_word_count [of sample_seed_collaborators "Some (replicate 14 ''a'')" None "''en''"]
    by blast
  have "\<not> (\<exists>ws. (None :: string list option) = Some ws \<and> length ws \<in> {12, 13, 24, 25::nat})"
    by simp
  then show "\<exists>e. Seed_init sample_seed_collaborators None None ''en'' = Inl e"
    using Seed_init_word_count [of sample_seed_collaborators None None "''en''"]
    by blast
qed

section \<open>The numeric mode of the seed decoder\<close>

lemma seed_numeric_loop_char:
  "seed_numeric_loop wl segment is phrase = (r, phrase') \<Longrightarrow>
     (r = Inr () \<longleftrightarrow> (\<forall>i \<in> set is. seed_group_word wl segment i \<noteq> None))
   \<and> (r = Inr () \<longrightarrow> phrase' = phrase @ map (\<lambda>i. the (seed_group_word wl segment i)) is)"
proof (induction "is" arbitrary: phrase)
  case Nil
  then show ?case by auto
next
  case (Cons i rest)
  show ?case
  proof (cases "seed_group_word wl segment i")
    case None
    with Cons.prems show ?thesis
      by (auto simp: seed_group_word_def split: option.splits sum.splits)
  next
    case (Some w)
    with Cons.prems have "seed_numeric_loop wl segment rest (phrase @ [w]) = (r, phrase')"
      by (auto simp: seed_group_word_def split: option.splits sum.splits)
    from Cons.IH [OF this] Some show ?thesis by auto
  qed
qed

lemma is_digit_cases:
  "is_digit c \<Longrightarrow>
   c = CHR ''0'' \<or> c = CHR ''1'' \<or> c = CHR ''2'' \<or> c = CHR ''3'' \<or> c = CHR ''4''
   \<or> c = CHR ''5'' \<or> c = CHR ''6'' \<or> c = CHR ''7'' \<or> c = CHR ''8'' \<or> c = CHR ''9''"
  unfolding is_digit_def by simp

lemma find_digit:
  assumes "is_digit c"
  shows "find_char c ''0123456789'' = Some (of_char c - 48)"
  using is_digit_cases [OF assms] by (elim disjE) simp_all

lemma is_digit_not_space:
  assumes "is_digit c"
  shows "\<not> int_isspace c"
  using is_digit_cases [OF assms] by (elim disjE) (simp_all add: int_isspace_def)

lemma is_digit_not_sign:
  assumes "is_digit c"
  shows "c \<noteq> CHR ''-''" "c \<noteq> CHR ''+''" "c \<noteq> CHR ''_''"
  using is_digit_cases [OF assms] by auto

lemma int_digits_decimal:
  "list_all is_digit cs \<Longrightarrow>
   int_digits cs acc = Some (foldl (\<lambda>a c. a * 10 + (of_char c - 48)) acc cs)"
proof (induction cs acc rule: int_digits.induct)
  case (1 acc)
  then show ?case by simp
next
  case (2 c acc)
  then show ?case by (simp add: find_digit del: find_char.simps)
next
  case (3 c c' cs acc)
  from 3(3) have d: "is_digit c" "is_digit c'" "list_all is_digit cs" by auto
  then have "c \<noteq> CHR ''_''" by (simp add: is_digit_not_sign)
  with 3(2) [OF this find_digit [OF d(1)]] d show ?case
    by (simp add: find_digit del: find_char.simps)
qed

lemma py_int_decimal:
  assumes "list_all is_digit g" and "g \<noteq> []"
  shows "py_int g = Some (int (decimal_value g))"
proof -
  from assms obtain c cs where g: "g = c # cs" by (cases g) auto
  with assms have c: "is_digit c" and cs: "list_all is_digit cs" by auto
  have "dropWhile int_isspace g = g"
    using c g by (simp add: is_digit_not_space)
  moreover have "dropWhile int_isspace (rev g) = rev g"
    using assms by (cases "rev g") (auto simp: is_digit_not_space list_all_iff dest: arg_cong [where f = set])
  ultimately have strip: "rev (dropWhile int_isspace (rev (dropWhile int_isspace g))) = g" by simp
  have sign: "c \<noteq> CHR ''-''" "c \<noteq> CHR ''+''" using c by (simp_all add: is_digit_not_sign)
  have "int_unsigned g = Some (decimal_value g)"
    using g c cs
    by (simp add: int_unsigned_def find_digit int_digits_decimal decimal_value_def
        del: find_char.simps)
  then show ?thesis
    unfolding py_int_def strip Let_def using g sign by simp
qed

lemma seed_group_word_decimal:
  assumes "list_all is_digit (take 4 (drop (i * 4) segment))"
      and "take 4 (drop (i * 4) segment) \<noteq> []"
  shows "seed_group_word wl segment i =
           (if decimal_value (take 4 (drop (i * 4) segment)) < length wl
            then Some (wl ! decimal_value (take 4 (drop (i * 4) segment)))
            else None)"
  unfolding seed_group_word_def py_int_decimal [OF assms]
  by (simp add: py_index_def py_index_pos_def)

lemma SeedQR_add_numeric_unfold:
  assumes "seed_numeric_loop (sq_wordlist self) segment [0..<length segment div 4] [] = (r0, phrase)"
  shows "SeedQR_add X self segment SEEDSSQR =
     (case r0 of
        Inl e \<Rightarrow> (Inr INVALID, self\<lparr>seed_phrase := phrase\<rparr>)
      | Inr u \<Rightarrow>
          if length phrase \<in> {12, 24}
          then (Inr COMPLETE,
                self\<lparr>seed_phrase := phrase, sq_complete := True, sq_collected_segments := 1\<rparr>)
          else (Inr INVALID, self\<lparr>seed_phrase := phrase\<rparr>))"
  unfolding SeedQR_add_def Let_def assms
  by (auto simp: is1224Phrase_def split: sum.splits)

text \<open>
  C5 (amended): in the numeric mode the decoder reads \<open>length segment div 4\<close> groups of
  four characters and ignores up to three characters after the last group.  The result
  is Complete exactly when the number of groups is 12 or 24 and every group selects a
  word, that is, \<^verbatim>\<open>int\<close> accepts the group and the index is in the range of the word
  list; otherwise it is Invalid.  On Complete the phrase is the list of the selected
  words; on Invalid the completion flag is unchanged, and a decoder that was not
  complete exposes no phrase.  A group of decimal digits selects the word at its value,
  counted from 0, and no word when the value is not below the length of the word list.
\<close>

theorem SeedQR_add_numeric:
  assumes "SeedQR_add X self segment SEEDSSQR = (r, self')"
  shows "(r = Inr COMPLETE \<or> r = Inr INVALID)
    \<and> (r = Inr COMPLETE \<longleftrightarrow>
         length segment div 4 \<in> {12, 24}
         \<and> (\<forall>i < length segment div 4. seed_group_word (sq_wordlist self) segment i \<noteq> None))
    \<and> (r = Inr COMPLETE \<longrightarrow>
         SeedQR_getSeedPhrase self'
           = map (\<lambda>i. the (seed_group_word (sq_wordlist self) segment i))
               [0..<length segment div 4])
    \<and> (r = Inr INVALID \<longrightarrow>
         sq_complete self' = sq_complete self
         \<and> (\<not> sq_complete self \<longrightarrow> SeedQR_getSeedPhrase self' = []))
    \<and> (\<forall>i. list_all is_digit (take 4 (drop (i * 4) segment))
             \<and> take 4 (drop (i * 4) segment) \<noteq> [] \<longrightarrow>
           seed_group_word (sq_wordlist self) segment i =
             (if decimal_value (take 4 (drop (i * 4) segment)) < length (sq_wordlist self)
              then Some (sq_wordlist self ! decimal_value (take 4 (drop (i * 4) segment)))
              else None))"
proof -
  obtain r0 phrase where loop:
    "seed_numeric_loop (sq_wordlist self) segment [0..<length segment div 4] [] = (r0, phrase)"
    by (cases "seed_numeric_loop (sq_wordlist self) segment [0..<length segment div 4] []") auto
  note char = seed_numeric_loop_char [OF loop]
  note add = assms [unfolded SeedQR_add_numeric_unfold [OF loop]]
  have digits: "\<forall>i. list_all is_digit (take 4 (drop (i * 4) segment))
             \<and> take 4 (drop (i * 4) segment) \<noteq> [] \<longrightarrow>
           seed_group_word (sq_wordlist self) segment i =
             (if decimal_value (take 4 (drop (i * 4) segment)) < length (sq_wordlist self)
              then Some (sq_wordlist self ! decimal_value (take 4 (drop (i * 4) segment)))
              else None)"
    using seed_group_word_decimal by blast
  show ?thesis
  proof (cases r0)
    case (Inl e)
    with add have res: "r = Inr INVALID" "self' = self\<lparr>seed_phrase := phrase\<rparr>" by auto
    from Inl char have "\<not> (\<forall>i < length segment div 4.
        seed_group_word (sq_wordlist self) segment i \<noteq> None)"
      by auto
    with res digits show ?thesis by (simp add: SeedQR_getSeedPhrase_def)
  next
    case (Inr u)
    with char have all: "\<forall>i < length segment div 4.
        seed_group_word (sq_wordlist self) segment i \<noteq> None"
      and ph: "phrase = map (\<lambda>i. the (seed_group_word (sq_wordlist self) segment i))
                 [0..<length segment div 4]"
      by auto
    from ph have len: "length phrase = length segment div 4" by simp
    show ?thesis
    proof (cases "length segment div 4 \<in> {12, 24}")
      case True
      with add Inr len have "r = Inr COMPLETE"
        "self' = self\<lparr>seed_phrase := phrase, sq_complete := True, sq_collected_segments := 1\<rparr>"
        by auto
      with True all ph digits show ?thesis by (simp add: SeedQR_getSeedPhrase_def)
    next
      case False
      with add Inr len have "r = Inr INVALID" "self' = self\<lparr>seed_phrase := phrase\<rparr>"
        by auto
      with False digits show ?thesis by (simp add: SeedQR_getSeedPhrase_def)
    qed
  qed
qed

theorem SeedQR_add_numeric_witness:
  "SeedQR_getSeedPhrase (snd (SeedQR_add sample_collaborators sample_seedqr
      ''000000010002000000010002000000010002000000010002'' SEEDSSQR))
   = [''zero'', ''one'', ''two'', ''zero'', ''one'', ''two'', ''zero'', ''one'', ''two'', ''zero'', ''one'', ''two'']"
proof -
  have h: "SeedQR_add sample_collaborators sample_seedqr ''000000010002000000010002000000010002000000010002'' SEEDSSQR
    = (Inr COMPLETE,
       sample_seedqr\<lparr>seed_phrase := [''zero'', ''one'', ''two'', ''zero'', ''one'', ''two'', ''zero'', ''one'', ''two'', ''zero'', ''one'', ''two''],
         sq_complete := True, sq_collected_segments := 1\<rparr>)"
    by code_simp
  have "SeedQR_getSeedPhrase
          (sample_seedqr\<lparr>seed_phrase := [''zero'', ''one'', ''two'', ''zero'', ''one'', ''two'', ''zero'', ''one'', ''two'', ''zero'', ''one'', ''two''],
             sq_complete := True, sq_collected_segments := 1\<rparr>)
        = map (\<lambda>i. the (seed_group_word (sq_wordlist sample_seedqr)
                 ''000000010002000000010002000000010002000000010002'' i))
            [0..<length ''000000010002000000010002000000010002000000010002'' div 4]"
    using SeedQR_add_numeric [OF h, THEN conjunct2, THEN conjunct2, THEN conjunct1]
    by (rule mp) (rule refl)
  also have "\<dots> = [''zero'', ''one'', ''two'', ''zero'', ''one'', ''two'', ''zero'', ''one'', ''two'', ''zero'', ''one'', ''two'']"
    by code_simp
  finally show ?thesis unfolding h snd_conv .
qed

text \<open>
  C5, as the claim states it, fails: a numeric segment of 49 characters, twelve valid
  groups and one more digit, is classified as a numeric seed and decoded to Complete
  with a phrase of twelve words; and a segment whose last twelve groups are \<^verbatim>\<open>-001\<close> is
  Complete as well, since \<^verbatim>\<open>int\<close> accepts a sign and the index \<^verbatim>\<open>-1\<close> reads the last word.
\<close>

theorem SeedQR_add_accepts_other_lengths:
  "length ''0000000100020000000100020000000100020000000100027'' mod 4 \<noteq> 0
   \<and> fst (DecodeQR_addString sample_collaborators
            (DecodeQR_new sample_collaborators None [''zero'', ''one'', ''two''])
            (Some ''0000000100020000000100020000000100020000000100027'')) = Inr COMPLETE
   \<and> DecodeQR_getSeedPhrase (snd (DecodeQR_addString sample_collaborators
            (DecodeQR_new sample_collaborators None [''zero'', ''one'', ''two''])
            (Some ''0000000100020000000100020000000100020000000100027'')))
       = [''zero'', ''one'', ''two'', ''zero'', ''one'', ''two'', ''zero'', ''one'', ''two'', ''zero'', ''one'', ''two'']
   \<and> fst (SeedQR_add sample_collaborators sample_seedqr
            ''000000000000000000000000000000000000000000000000-001-001-001-001-001-001-001-001-001-001-001-001'' SEEDSSQR) = Inr COMPLETE"
  by code_simp

section \<open>Values without a translation\<close>

lemma those_eq_None: "those xs = None \<longleftrightarrow> None \<in> set xs"
  by (induction xs) (auto split: option.splits)

lemma abbreviation_lookup_None:
  "abbreviation_lookup m is_list v = None \<longleftrightarrow>
     (\<not> is_list \<and> map_of m v = None)
     \<or> (is_list \<and> (\<exists>x \<in> set (py_split (CHR '','') v). map_of m x = None))"
  by (auto simp: abbreviation_lookup_def those_eq_None image_iff) metis+

lemma convert_other_key:
  assumes "k \<noteq> key" and "k \<noteq> category"
  shows "map_of (convert_abbreviated_value category key m is_list nk d) k = map_of d k"
  using assms
  by (auto simp: convert_abbreviated_value_def Let_def update_conv' delete_conv'
      split: option.splits setting_value.splits)

lemma convert_no_match:
  assumes "map_of d key = Some (SVStr v)" and "abbreviation_lookup m is_list v = None"
  shows "convert_abbreviated_value category key m is_list nk d = d"
  using assms by (simp add: convert_abbreviated_value_def)

lemma convert_category:
  assumes "category \<noteq> key"
      and "map_of (convert_abbreviated_value cat' key m is_list nk d) category = Some (SVDict c')"
  shows "map_of d category = Some (SVDict c')
       \<or> (cat' = category \<and>
           (\<exists>c nv. (map_of d category = Some (SVDict c) \<or> (map_of d category = None \<and> c = []))
                   \<and> c' = AList.update (translated_key key nk) nv c))"
  using assms
  by (auto simp: convert_abbreviated_value_def Let_def update_conv' delete_conv'
      split: option.splits setting_value.splits if_splits)

lemma conversions_keys_distinct:
  "distinct (map (\<lambda>(category, key, m, is_list, nk). key) conversions)"
  by code_simp

lemma conversions_translated_distinct:
  "distinct (map (\<lambda>(category, key, m, is_list, nk). translated_key key nk) conversions)"
  by code_simp

lemma conversions_names:
  "list_all (\<lambda>(category, key, m, is_list, nk).
       key \<notin> set [''wallet'', ''features'', ''type'', ''version'', ''name'']
       \<and> category \<in> set [''wallet'', ''features'']) conversions"
  by code_simp

lemma conversions_entry:
  assumes "(category, key, m, is_list, nk) \<in> set conversions"
  shows "key \<noteq> ''wallet''" "key \<noteq> ''features''" "key \<noteq> ''type''" "key \<noteq> ''version''"
    "key \<noteq> ''name''" "category = ''wallet'' \<or> category = ''features''"
  using conversions_names assms unfolding list_all_iff by auto

lemma conversions_same_key:
  assumes "(category, key, m, is_list, nk) \<in> set conversions"
      and "(category', key, m', is_list', nk') \<in> set conversions"
  shows "category' = category \<and> m' = m \<and> is_list' = is_list \<and> nk' = nk"
proof -
  have "inj_on (\<lambda>(category, key, m, is_list, nk). key) (set conversions)"
    using conversions_keys_distinct by (simp add: distinct_map)
  from inj_onD [OF this _ assms(2) assms(1)] show ?thesis by simp
qed

lemma conversions_same_translated:
  assumes "(category, key, m, is_list, nk) \<in> set conversions"
      and "(category', key', m', is_list', nk') \<in> set conversions"
      and "translated_key key' nk' = translated_key key nk"
  shows "key' = key"
proof -
  have "inj_on (\<lambda>(category, key, m, is_list, nk). translated_key key nk) (set conversions)"
    using conversions_translated_distinct by (simp add: distinct_map)
  from inj_onD [OF this _ assms(2) assms(1)] assms(3) show ?thesis by simp
qed

lemma kept_step:
  assumes e0: "(category, key, m, is_list, nk) \<in> set conversions"
      and e: "(category', key', m', is_list', nk') \<in> set conversions"
      and none: "abbreviation_lookup m is_list v = None"
      and inv: "kept category key (translated_key key nk) v d"
  shows "kept category key (translated_key key nk) v
           (convert_abbreviated_value category' key' m' is_list' nk' d)"
proof (cases "key' = key")
  case True
  with conversions_same_key [OF e0] e have "m' = m" "is_list' = is_list" by auto
  with True inv none have
    "convert_abbreviated_value category' key' m' is_list' nk' d = d"
    by (simp add: kept_def convert_no_match)
  with inv show ?thesis by simp
next
  case False
  note n0 = conversions_entry [OF e0] and n1 = conversions_entry [OF e]
  have k1: "key \<noteq> category'" using n0 n1 by auto
  have k2: "category \<noteq> key'" using n0 n1 by auto
  have tk: "translated_key key' nk' \<noteq> translated_key key nk"
    using conversions_same_translated [OF e0 e] False by auto
  have a: "map_of (convert_abbreviated_value category' key' m' is_list' nk' d) key
           = Some (SVStr v)"
    using inv False k1 by (simp add: kept_def convert_other_key)
  have b: "map_of c' (translated_key key nk) = None"
    if "map_of (convert_abbreviated_value category' key' m' is_list' nk' d) category
        = Some (SVDict c')" for c'
    using convert_category [OF k2 that] inv tk
    by (auto simp: kept_def update_conv')
  from a b show ?thesis by (simp add: kept_def)
qed

lemma kept_fold:
  assumes e0: "(category, key, m, is_list, nk) \<in> set conversions"
      and none: "abbreviation_lookup m is_list v = None"
      and sub: "set es \<subseteq> set conversions"
      and inv: "kept category key (translated_key key nk) v d"
  shows "kept category key (translated_key key nk) v
           (fold (\<lambda>(category, key, abbreviation_map, is_list, new_key_name).
                    convert_abbreviated_value category key abbreviation_map is_list new_key_name)
              es d)"
  using sub inv
proof (induction es arbitrary: d)
  case Nil
  then show ?case by simp
next
  case (Cons e es)
  obtain category' key' m' is_list' nk' where e: "e = (category', key', m', is_list', nk')"
    by (cases e) auto
  with Cons.prems have "(category', key', m', is_list', nk') \<in> set conversions" by auto
  from kept_step [OF e0 this none Cons.prems(2)] Cons.IH Cons.prems(1) e
  show ?case by simp
qed

lemma settings_entries_strings:
  "settings_entries es d0 = (r, d) \<Longrightarrow> all_strings d0 \<Longrightarrow> all_strings d"
proof (induction es arbitrary: d0)
  case Nil
  then show ?case by simp
next
  case (Cons entry es)
  show ?case
  proof (cases "py_split (CHR ''='') entry")
    case Nil
    with Cons.prems show ?thesis by simp
  next
    case (Cons k rest)
    note outer = this
    show ?thesis
    proof (cases rest)
      case Nil
      with outer Cons.prems show ?thesis by simp
    next
      case (Cons x others)
      with outer Cons.prems(1) have
        "settings_entries es (AList.update (py_strip k) (SVStr (py_strip x)) d0) = (r, d)"
        by simp
      moreover have "all_strings (AList.update (py_strip k) (SVStr (py_strip x)) d0)"
        using Cons.prems(2) by (auto simp: all_strings_def update_conv')
      ultimately show ?thesis by (rule Cons.IH)
    qed
  qed
qed

text \<open>
  C10: in a Complete settings decode, a pair of the flat dictionary whose key is one of
  the abbreviated keys and whose value has no translation (for a list key: one element
  of the comma-separated value has none) is still in the result under its abbreviated
  key with its value as it was read, and the category of the key holds no entry under
  the translated key.
\<close>

theorem untranslated_value_kept:
  assumes add: "SettingsQR_add self segment t = (Inr COMPLETE, self')"
      and e0: "(category, key, abbreviation_map, is_list, new_key_name) \<in> set conversions"
      and flat: "map_of (snd (settings_entries (py_split (CHR '' '') segment) [])) key
                 = Some (SVStr v)"
      and none: "(\<not> is_list \<and> map_of abbreviation_map v = None)
                 \<or> (is_list \<and> (\<exists>x \<in> set (py_split (CHR '','') v).
                                   map_of abbreviation_map x = None))"
  shows "map_of (settings self') key = Some (SVStr v)
       \<and> (\<forall>c. map_of (settings self') category = Some (SVDict c)
              \<longrightarrow> map_of c (translated_key key new_key_name) = None)"
proof -
  obtain r d where ent: "settings_entries (py_split (CHR '' '') segment) [] = (r, d)"
    by (cases "settings_entries (py_split (CHR '' '') segment) []") auto
  let ?d3 = "AList.delete ''name'' (AList.delete ''version'' (AList.delete ''type'' d))"
  from add have s': "settings self' = convert_all ?d3"
    unfolding SettingsQR_add_unfold [OF ent]
    by (auto split: sum.splits if_splits)
  have strs: "all_strings d"
    using settings_entries_strings [OF ent] by (simp add: all_strings_def)
  note n0 = conversions_entry [OF e0]
  have "map_of ?d3 key = Some (SVStr v)"
    using flat ent n0 by (simp add: delete_conv')
  moreover have "map_of ?d3 category \<noteq> Some (SVDict c)" for c
    using strs by (auto simp: all_strings_def delete_conv' split: if_splits)
  ultimately have inv: "kept category key (translated_key key new_key_name) v ?d3"
    by (simp add: kept_def)
  have lookup: "abbreviation_lookup abbreviation_map is_list v = None"
    using none by (simp add: abbreviation_lookup_None)
  have "kept category key (translated_key key new_key_name) v (convert_all ?d3)"
    unfolding convert_all_def by (rule kept_fold [OF e0 lookup subset_refl inv])
  with s' show ?thesis by (simp add: kept_def)
qed


lemma xpub_9_complete:
  "fst (SettingsQR_add SettingsQR_init ''type=settings version=1 xpub=9 sigs=s'' SETTINGS)
   = Inr COMPLETE"
  by code_simp

lemma xpub_9_flat:
  "map_of (snd (settings_entries
      (py_split (CHR '' '') ''type=settings version=1 xpub=9 sigs=s'') [])) ''xpub''
   = Some (SVStr ''9'')"
  by code_simp

lemma xpub_conversion:
  "(''features'', ''xpub'', map_abbreviated_enable, False, Some ''xpub_export'')
   \<in> set conversions"
  by code_simp

lemma xpub_9_no_match: "map_of map_abbreviated_enable ''9'' = None"
  by code_simp

theorem untranslated_value_kept_witness:
  "map_of (settings (snd (SettingsQR_add SettingsQR_init
      ''type=settings version=1 xpub=9 sigs=s'' SETTINGS))) ''xpub'' = Some (SVStr ''9'')"
proof -
  have add: "SettingsQR_add SettingsQR_init ''type=settings version=1 xpub=9 sigs=s'' SETTINGS
    = (Inr COMPLETE,
       snd (SettingsQR_add SettingsQR_init ''type=settings version=1 xpub=9 sigs=s'' SETTINGS))"
    using xpub_9_complete by (metis prod.collapse)
  have none: "(\<not> False \<and> map_of map_abbreviated_enable ''9'' = None)
      \<or> (False \<and> (\<exists>x \<in> set (py_split (CHR '','') ''9'').
                     map_of map_abbreviated_enable x = None))"
    using xpub_9_no_match by simp
  from untranslated_value_kept [OF add xpub_conversion xpub_9_flat none]
  show ?thesis by (rule conjunct1)
qed

section \<open>The animated reassemblers\<close>

































section \<open>Base64 transactions\<close>

lemma find_char_less: "find_char c xs = Some v \<Longrightarrow> v < length xs"
  by (induction xs arbitrary: v) (auto split: if_splits)

lemma b64_alphabet_length: "length b64_alphabet = 64"
  by (simp add: b64_alphabet_def)

lemma a2b_loop_bytes:
  assumes "a2b_loop s q l p out = Inr bs"
      and "\<forall>b \<in> set out. b < 256"
      and "q < 4" and "q = 1 \<longrightarrow> l < 64" and "q = 2 \<longrightarrow> l < 16" and "q = 3 \<longrightarrow> l < 4"
  shows "\<forall>b \<in> set bs. b < 256"
  using assms
proof (induction s arbitrary: q l p out)
  case Nil
  then show ?case by (auto split: if_splits)
next
  case (Cons c cs)
  show ?case
  proof (cases "c = CHR ''=''")
    case True
    with Cons.prems(1) have
      "Inr out = Inr bs \<or> a2b_loop cs q l (if 2 \<le> q then p + 1 else p) out = Inr bs"
      by (auto split: if_splits)
    then show ?thesis
    proof
      assume "Inr out = Inr bs"
      with Cons.prems(2) show ?thesis by simp
    next
      assume "a2b_loop cs q l (if 2 \<le> q then p + 1 else p) out = Inr bs"
      from Cons.IH [OF this Cons.prems(2-6)] show ?thesis .
    qed
  next
    case False
    show ?thesis
    proof (cases "find_char c b64_alphabet")
      case None
      with False Cons.prems(1) have "a2b_loop cs q l p out = Inr bs" by simp
      from Cons.IH [OF this Cons.prems(2-6)] show ?thesis .
    next
      case (Some v)
      then have v: "v < 64" using find_char_less b64_alphabet_length by fastforce
      consider "q = 0" | "q = 1" | "q = 2" | "q = 3" using Cons.prems(3) by linarith
      then show ?thesis
      proof cases
        case 1
        with False Some Cons.prems(1) have eq: "a2b_loop cs 1 v 0 out = Inr bs" by simp
        show ?thesis by (rule Cons.IH [OF eq Cons.prems(2)]) (use v in simp_all)
      next
        case 2
        with False Some Cons.prems(1) have eq:
          "a2b_loop cs 2 (v mod 16) 0 (out @ [l * 4 + v div 16]) = Inr bs" by simp
        have "l < 64" using Cons.prems(4) 2 by simp
        then have "l * 4 + v div 16 < 256" using v by linarith
        then have bd: "\<forall>b \<in> set (out @ [l * 4 + v div 16]). b < 256"
          using Cons.prems(2) by simp
        show ?thesis by (rule Cons.IH [OF eq bd]) simp_all
      next
        case 3
        with False Some Cons.prems(1) have eq:
          "a2b_loop cs 3 (v mod 4) 0 (out @ [l * 16 + v div 4]) = Inr bs" by simp
        have "l < 16" using Cons.prems(5) 3 by simp
        then have "l * 16 + v div 4 < 256" using v by linarith
        then have bd: "\<forall>b \<in> set (out @ [l * 16 + v div 4]). b < 256"
          using Cons.prems(2) by simp
        show ?thesis by (rule Cons.IH [OF eq bd]) simp_all
      next
        case 4
        with False Some Cons.prems(1) have eq:
          "a2b_loop cs 0 0 0 (out @ [l * 64 + v]) = Inr bs" by simp
        have "l < 4" using Cons.prems(6) 4 by simp
        then have "l * 64 + v < 256" using v by linarith
        then have bd: "\<forall>b \<in> set (out @ [l * 64 + v]). b < 256"
          using Cons.prems(2) by simp
        show ?thesis by (rule Cons.IH [OF eq bd]) simp_all
      qed
    qed
  qed
qed

lemma b64decode_bytes: "b64decode s = Inr bs \<Longrightarrow> \<forall>b \<in> set bs. b < 256"
  using a2b_loop_bytes [of s 0 0 0 "[]" bs]
  by (auto simp: b64decode_def split: if_splits)

lemma b64_char_nth: "k < 64 \<Longrightarrow> b64_char (b64_alphabet ! k)"
  unfolding b64_char_def using nth_mem [of k b64_alphabet] by (simp add: b64_alphabet_length)

lemma b64encode_chars:
  "\<forall>b \<in> set bs. b < 256 \<Longrightarrow> \<forall>c \<in> set (b64encode bs). b64_char c"
proof (induction bs rule: b64encode.induct)
  case 1
  then show ?case by simp
next
  case (2 a)
  then have "a div 4 < 64" "(a mod 4) * 16 < 64" by auto
  then show ?case by (simp add: b64_char_nth) (simp add: b64_char_def)
next
  case (3 a b)
  then have "a div 4 < 64" "(a mod 4) * 16 + b div 16 < 64" "(b mod 16) * 4 < 64" by auto
  then show ?case by (simp add: b64_char_nth) (simp add: b64_char_def)
next
  case (4 a b c rest)
  then have "a div 4 < 64" "(a mod 4) * 16 + b div 16 < 64" "(b mod 16) * 4 + c div 64 < 64"
    "c mod 64 < 64" by auto
  with 4 show ?case by (simp add: b64_char_nth)
qed

lemma isBase64_chars:
  assumes "isBase64 s"
  shows "\<forall>c \<in> set s. b64_char c"
proof -
  from assms obtain bs where d: "b64decode s = Inr bs" and e: "b64encode bs = s"
    by (auto simp: isBase64_def split: sum.splits)
  from b64encode_chars [OF b64decode_bytes [OF d]] e show ?thesis by simp
qed

lemma not_b64_char: "\<not> b64_char (CHR '':'')" "\<not> b64_char (CHR '' '')"
  by (simp_all add: b64_char_def b64_alphabet_def)

lemma ascii_lower_colon: "ascii_lower c = CHR '':'' \<Longrightarrow> c = CHR '':''"
  by (auto simp: ascii_lower_def split: option.splits if_splits)

lemma imatch_prefix_third:
  assumes "imatch_prefix (p1 # p2 # p3 # ps) s \<noteq> None"
  shows "\<exists>a b c rest. s = a # b # c # rest \<and> ascii_lower p3 = ascii_lower c"
proof -
  from assms obtain a s1 where s: "s = a # s1" by (cases s) auto
  with assms obtain b s2 where s1: "s1 = b # s2" by (cases s1) (auto split: if_splits)
  with s assms obtain c s3 where s2: "s2 = c # s3" by (cases s2) (auto split: if_splits)
  with s s1 assms show ?thesis by (auto split: if_splits)
qed

lemma UR_prefix_colon:
  assumes "imatch_prefix (CHR ''U'' # CHR ''R'' # CHR '':'' # ps) s \<noteq> None"
  shows "CHR '':'' \<in> set s"
proof -
  from imatch_prefix_third [OF assms] obtain a b c rest where
    s: "s = a # b # c # rest" and "ascii_lower (CHR '':'') = ascii_lower c"
    by blast
  then have "ascii_lower c = CHR '':''" by (simp add: ascii_lower_def)
  with s ascii_lower_colon show ?thesis by auto
qed

lemma imatch_prefix_set: "imatch_prefix pat s = Some r \<Longrightarrow> set r \<subseteq> set s"
  by (induction pat s rule: imatch_prefix.induct) (auto split: if_splits)

lemma re_p_of_space:
  assumes "re_p_of s = Some (g1, g2, rest)"
  shows "CHR '' '' \<in> set s"
proof -
  from assms obtain r1 where r1: "imatch_prefix ''p'' s = Some r1"
    by (auto simp: re_p_of_def split: option.splits)
  with assms obtain r2 where r2: "imatch_prefix ''of'' (dropWhile is_digit r1) = Some r2"
    by (auto simp: re_p_of_def Let_def split: option.splits if_splits)
  with assms r1 have "dropWhile is_digit r2 = CHR '' '' # rest"
    by (auto simp: re_p_of_def Let_def split: option.splits if_splits list.splits)
  then have "CHR '' '' \<in> set (dropWhile is_digit r2)" by simp
  then have "CHR '' '' \<in> set r2" by (rule set_dropWhileD)
  with imatch_prefix_set [OF r2] have "CHR '' '' \<in> set (dropWhile is_digit r1)" by auto
  then have "CHR '' '' \<in> set r1" by (rule set_dropWhileD)
  with imatch_prefix_set [OF r1] show ?thesis by auto
qed

lemma SegmentType_base64:
  assumes "isBase64 s" and "b64decode s = Inr bs" and "psbt_parse X bs"
  shows "SegmentType X wl s = Inr PSBTBASE64"
proof -
  note chars = isBase64_chars [OF assms(1)]
  have c: "CHR '':'' \<notin> set s" "CHR '' '' \<notin> set s"
    using chars not_b64_char by auto
  have n1: "imatch_prefix ''UR:CRYPTO-PSBT/'' s = None"
    using UR_prefix_colon [of "''CRYPTO-PSBT/''" s] c
    by (cases "imatch_prefix ''UR:CRYPTO-PSBT/'' s") auto
  have n3: "imatch_prefix ''UR:BYTES/'' s = None"
    using UR_prefix_colon [of "''BYTES/''" s] c
    by (cases "imatch_prefix ''UR:BYTES/'' s") auto
  have n2: "re_specter_psbt s = None"
    using re_p_of_space [of s] c by (cases "re_p_of s") (auto simp: re_specter_psbt_def)
  have "a2b_base64 s = Inr bs" using assms(2) by (simp add: b64decode_def a2b_base64_def)
  with assms have "isBase64PSBT X s" by (simp add: isBase64PSBT_def)
  with n1 n2 n3 show ?thesis by (simp add: SegmentType_def)
qed


lemma b64_alphabet_distinct: "distinct b64_alphabet"
  by code_simp

lemma b64_alphabet_no_pad: "CHR ''='' \<notin> set b64_alphabet"
  by code_simp

lemma b64_alphabet_ascii: "list_all is_ascii b64_alphabet"
  by code_simp

lemma find_char_nth:
  "distinct xs \<Longrightarrow> k < length xs \<Longrightarrow> find_char (xs ! k) xs = Some k"
proof (induction xs arbitrary: k)
  case Nil
  then show ?case by simp
next
  case (Cons x xs)
  show ?case
  proof (cases k)
    case 0
    then show ?thesis by simp
  next
    case (Suc j)
    with Cons.prems have "xs ! j \<noteq> x" by auto
    with Suc Cons show ?thesis by simp
  qed
qed

lemma a2b_loop_alphabet:
  assumes "k < 64"
  shows "a2b_loop (b64_alphabet ! k # cs) q l p out =
     (if q = 0 then a2b_loop cs 1 k 0 out
      else if q = 1 then a2b_loop cs 2 (k mod 16) 0 (out @ [l * 4 + k div 16])
      else if q = 2 then a2b_loop cs 3 (k mod 4) 0 (out @ [l * 16 + k div 4])
      else a2b_loop cs 0 0 0 (out @ [l * 64 + k]))"
proof -
  have "find_char (b64_alphabet ! k) b64_alphabet = Some k"
    using assms by (simp add: find_char_nth b64_alphabet_distinct b64_alphabet_length)
  moreover have "b64_alphabet ! k \<in> set b64_alphabet"
    using assms by (simp add: b64_alphabet_length)
  then have "b64_alphabet ! k \<noteq> CHR ''=''"
    using b64_alphabet_no_pad by auto
  ultimately show ?thesis by simp
qed

lemma a2b_loop_padding:
  "a2b_loop ''=='' 2 l 0 out = Inr out"
  "a2b_loop ''='' 3 l 0 out = Inr out"
  "a2b_loop [] 0 0 0 out = Inr out"
  by simp_all

lemma a2b_loop_b64encode:
  "\<forall>b \<in> set bs. b < 256 \<Longrightarrow> a2b_loop (b64encode bs) 0 0 0 out = Inr (out @ bs)"
proof (induction bs arbitrary: out rule: b64encode.induct)
  case 1
  then show ?case by simp
next
  case (2 a)
  then have k: "a div 4 < 64" "(a mod 4) * 16 < 64" by auto
  have "(a div 4) * 4 + ((a mod 4) * 16) div 16 = a" by simp
  then show ?case by (simp add: a2b_loop_alphabet a2b_loop_padding k del: a2b_loop.simps)
next
  case (3 a b)
  then have k: "a div 4 < 64" "(a mod 4) * 16 + b div 16 < 64" "(b mod 16) * 4 < 64" by auto
  from 3 have "b div 16 < 16" by auto
  then have "(a div 4) * 4 + ((a mod 4) * 16 + b div 16) div 16 = a"
    "((a mod 4) * 16 + b div 16) mod 16 = b div 16"
    by simp_all
  moreover have "(b div 16) * 16 + ((b mod 16) * 4) div 4 = b" by simp
  ultimately show ?case by (simp add: a2b_loop_alphabet a2b_loop_padding k del: a2b_loop.simps)
next
  case (4 a b c rest)
  then have k: "a div 4 < 64" "(a mod 4) * 16 + b div 16 < 64" "(b mod 16) * 4 + c div 64 < 64"
    "c mod 64 < 64" by auto
  from 4 have "b div 16 < 16" "c div 64 < 4" by auto
  then have "(a div 4) * 4 + ((a mod 4) * 16 + b div 16) div 16 = a"
    "((a mod 4) * 16 + b div 16) mod 16 = b div 16"
    "(b div 16) * 16 + ((b mod 16) * 4 + c div 64) div 4 = b"
    "((b mod 16) * 4 + c div 64) mod 4 = c div 64"
    "(c div 64) * 64 + c mod 64 = c"
    by simp_all
  moreover from 4 have "a2b_loop (b64encode rest) 0 0 0 (out @ [a, b, c]) = Inr ((out @ [a, b, c]) @ rest)"
    by simp
  ultimately show ?case by (simp add: a2b_loop_alphabet a2b_loop_padding k del: a2b_loop.simps)
qed

lemma b64_char_ascii: "b64_char c \<Longrightarrow> is_ascii c"
  using b64_alphabet_ascii by (auto simp: b64_char_def list_all_iff is_ascii_def)

lemma b64decode_b64encode:
  assumes "\<forall>b \<in> set bs. b < 256"
  shows "b64decode (b64encode bs) = Inr bs"
proof -
  have "list_all is_ascii (b64encode bs)"
    using b64encode_chars [OF assms] b64_char_ascii by (auto simp: list_all_iff)
  then show ?thesis
    using a2b_loop_b64encode [OF assms, of "[]"] by (simp add: b64decode_def)
qed

lemma isBase64_iff:
  "isBase64 s \<longleftrightarrow> (\<exists>bs. (\<forall>b \<in> set bs. b < 256) \<and> s = b64encode bs)"
proof
  assume "isBase64 s"
  then obtain bs where "b64decode s = Inr bs" "b64encode bs = s"
    by (auto simp: isBase64_def split: sum.splits)
  with b64decode_bytes [of s bs] show "\<exists>bs. (\<forall>b \<in> set bs. b < 256) \<and> s = b64encode bs"
    by auto
next
  assume "\<exists>bs. (\<forall>b \<in> set bs. b < 256) \<and> s = b64encode bs"
  then show "isBase64 s"
    by (auto simp: isBase64_def b64decode_b64encode)
qed

lemma addString_base64_new:
  assumes "SegmentType X (Some wl) s = Inr PSBTBASE64" and "isBase64 s"
  shows "DecodeQR_addString X (DecodeQR_new X None wl) (Some s) =
     (Inr COMPLETE,
      (DecodeQR_new X None wl)
        \<lparr>complete := True, qr_type := Some PSBTBASE64,
         base64_qr := \<lparr>b64_total_segments = 1, b64_collected_segments = 1,
                       b64_complete = True, b64_data = Some s\<rparr>\<rparr>)"
  using assms
  by (simp add: DecodeQR_addString_def DecodeQR_new_def Base64DecodeQR_add_def return_rt_def
      Base64DecodeQR_init_def)

text \<open>
  C7: a string that is valid Base64 for the module, that is, the Base64 encoding of the
  bytes that it decodes to, and whose bytes the transaction parser accepts, is
  classified as PSBT-Base64 whatever the word list; a new session that receives it is
  complete, and the bytes that the session returns are the bytes of the direct Base64
  decoding of the string.
\<close>

theorem base64_psbt_round_trip:
  assumes "isBase64 s" and "b64decode s = Inr bs" and "psbt_parse X bs"
  shows "SegmentType X (Some wl) s = Inr PSBTBASE64
       \<and> fst (DecodeQR_addString X (DecodeQR_new X None wl) (Some s)) = Inr COMPLETE
       \<and> DecodeQR_getDataPSBT X (snd (DecodeQR_addString X (DecodeQR_new X None wl) (Some s)))
           = Inr (Some bs)"
proof -
  note ty = SegmentType_base64 [OF assms, of "Some wl"]
  have "a2b_base64 s = Inr bs" using assms(2) by (simp add: b64decode_def a2b_base64_def)
  then show ?thesis
    unfolding addString_base64_new [OF ty assms(1)] using ty
    by (simp add: DecodeQR_getDataPSBT_def Base64DecodeQR_getData_def)
qed

lemma magic_is_base64: "isBase64 ''cHNidP8=''"
  by code_simp

lemma magic_decoded: "b64decode ''cHNidP8='' = Inr [112, 115, 98, 116, 255]"
  by code_simp

lemma magic_parses: "psbt_parse sample_collaborators [112, 115, 98, 116, 255]"
  by code_simp

theorem base64_psbt_round_trip_witness:
  "SegmentType sample_collaborators (Some [''abandon'']) ''cHNidP8='' = Inr PSBTBASE64
   \<and> fst (DecodeQR_addString sample_collaborators
            (DecodeQR_new sample_collaborators None [''abandon'']) (Some ''cHNidP8=''))
       = Inr COMPLETE
   \<and> DecodeQR_getDataPSBT sample_collaborators
        (snd (DecodeQR_addString sample_collaborators
                (DecodeQR_new sample_collaborators None [''abandon'']) (Some ''cHNidP8='')))
       = Inr (Some [112, 115, 98, 116, 255])"
  by (rule base64_psbt_round_trip [OF magic_is_base64 magic_decoded magic_parses])

section \<open>The accessors of a session\<close>

lemma address_prefix_cases:
  assumes "address_prefix s = Some (g2, r)"
  shows "s = g2 @ r \<and> (g2 = ''bc1'' \<or> g2 = ''tb1'' \<or> g2 = ''1'' \<or> g2 = ''2'' \<or> g2 = ''3''
                        \<or> g2 = ''m'' \<or> g2 = ''n'')"
proof (cases "take 3 s = ''bc1''")
  case True
  with assms have "g2 = ''bc1''" "r = drop 3 s" by (simp_all add: address_prefix_def)
  with True show ?thesis by (metis append_take_drop_id)
next
  case False
  note nb = this
  show ?thesis
  proof (cases "take 3 s = ''tb1''")
    case True
    with nb assms have "g2 = ''tb1''" "r = drop 3 s" by (simp_all add: address_prefix_def)
    with True show ?thesis by (metis append_take_drop_id)
  next
    case False
    with nb assms show ?thesis
      by (cases s) (auto simp: address_prefix_def split: if_splits)
  qed
qed

lemma address_prefix_again:
  assumes "address_prefix s = Some (g2, r)"
  shows "address_prefix (g2 @ body) = Some (g2, body)"
  using address_prefix_cases [OF assms]
  by (elim conjE disjE) (simp_all add: address_prefix_def)

lemma re_address_here_anchored:
  assumes "re_address_here s = Some (g1, g2)"
  shows "re_address_anchored g1 = Some (g1, g2)"
proof -
  from assms obtain r where p: "address_prefix s = Some (g2, r)"
    and g1: "g1 = g2 @ take 62 (takeWhile address_class r)"
    and len: "25 \<le> length (take 62 (takeWhile address_class r))"
    by (auto simp: re_address_here_def Let_def split: option.splits if_splits)
  let ?body = "take 62 (takeWhile address_class r)"
  have all: "\<forall>c \<in> set ?body. address_class c"
    by (auto dest: in_set_takeD set_takeWhileD)
  then have tw: "takeWhile address_class ?body = ?body" "dropWhile address_class ?body = []"
    by simp_all
  have "re_address_anchored (g2 @ ?body) =
          (if 25 \<le> length ?body \<and> length ?body \<le> 62 \<and> at_end []
           then Some (g2 @ ?body, g2) else None)"
    unfolding re_address_anchored_def address_prefix_again [OF p]
    by (simp only: Let_def tw option.case prod.case)
  moreover have "length ?body \<le> 62" by simp
  ultimately show ?thesis using len by (simp add: g1 at_end_def)
qed

lemma re_address_search_anchored:
  "re_address_search s = Some (g1, g2) \<Longrightarrow> re_address_anchored g1 = Some (g1, g2)"
proof (induction s)
  case Nil
  then show ?case by (simp add: re_address_here_anchored)
next
  case (Cons c cs)
  then show ?case
    by (cases "re_address_here (c # cs)") (auto simp: re_address_here_anchored)
qed

lemma BitcoinAddressQR_add_result:
  "BitcoinAddressQR_add self segment t = (r, self') \<Longrightarrow>
     (r = Inr INVALID \<and> self' = self)
     \<or> (r = Inr COMPLETE \<and> ba_complete self' \<and> address self' \<noteq> None)"
  by (auto simp: BitcoinAddressQR_add_def Let_def re_address_search_anchored
      split: option.splits)

lemma SeedQR_add_complete:
  "SeedQR_add X q s t = (r, q') \<Longrightarrow> sq_complete q' \<Longrightarrow> sq_complete q \<or> r = Inr COMPLETE"
  by (auto simp: SeedQR_add_def Let_def split: if_splits prod.splits sum.splits option.splits)

lemma py_index_pos_less: "py_index_pos xs k = Some i \<Longrightarrow> i < length xs"
  by (auto simp: py_index_pos_def split: if_splits)

lemma filled_update:
  assumes "i < length xs" and "xs ! i = None"
  shows "length (filter (\<lambda>x. x \<noteq> None) (xs[i := Some v]))
         = Suc (length (filter (\<lambda>x. x \<noteq> None) xs))"
  using assms
proof (induction xs arbitrary: i)
  case Nil
  then show ?case by simp
next
  case (Cons x xs)
  then show ?case by (cases i) auto
qed

lemma filled_all:
  "length (filter (\<lambda>x. x \<noteq> None) xs) = length xs \<longleftrightarrow> None \<notin> set xs"
proof (induction xs)
  case Nil
  then show ?case by simp
next
  case (Cons x xs)
  show ?case
  proof (cases x)
    case None
    have le: "length (filter (\<lambda>x. x \<noteq> None) xs) \<le> length xs"
      by (rule length_filter_le)
    have "length (filter (\<lambda>x. x \<noteq> None) (x # xs)) = length (filter (\<lambda>x. x \<noteq> None) xs)"
      using None by simp
    moreover have "length (x # xs) = Suc (length xs)" by simp
    ultimately have "length (filter (\<lambda>x. x \<noteq> None) (x # xs)) \<noteq> length (x # xs)"
      using le by linarith
    with None show ?thesis by simp
  next
    case (Some y)
    with Cons show ?thesis by simp
  qed
qed

lemma validate_joined:
  "validateWalletDescriptor X W = Inr True \<Longrightarrow> None \<notin> set (sw_segments W)"
  by (auto simp: validateWalletDescriptor_def validateJson_def join_segments_def
      split: sum.splits if_splits)

lemma wallet_inv_add:
  assumes inv: "wallet_inv X W" and add: "SpecterDecodeWalletQR_add X W f = (r, W')"
  shows "wallet_inv X W' \<and> (sw_complete W' \<longrightarrow> sw_complete W \<or> r = Inr COMPLETE)"
proof (cases "SpecterDecodeWalletQR_totalSegmentNum X f")
  case (Inl e)
  with add have "W' = W" by (simp add: SpecterDecodeWalletQR_add_def)
  with inv show ?thesis by simp
next
  case (Inr nt)
  show ?thesis
  proof (cases "(sw_total_segments W \<noteq> None \<and> sw_total_segments W \<noteq> nt)
                \<or> (sw_total_segments W = None \<and> nt = None)")
    case True
    with add Inr have "W' = W" by (auto simp: SpecterDecodeWalletQR_add_def)
    with inv show ?thesis by simp
  next
    case False
    define W1 where "W1 =
      (if sw_total_segments W = None
       then W\<lparr>sw_total_segments := nt, sw_segments := replicate (nat (the nt)) None\<rparr>
       else W)"
    have c1: "sw_complete W1 = sw_complete W" by (simp add: W1_def)
    have inv1: "wallet_inv X W1"
    proof (cases "sw_total_segments W = None")
      case True
      with False obtain t where nt: "nt = Some t" by auto
      have W1: "W1 = W\<lparr>sw_total_segments := Some t, sw_segments := replicate (nat t) None\<rparr>"
        using True nt by (simp add: W1_def)
      have "sw_collected_segments W = 0" using inv True by (simp add: wallet_inv_def)
      moreover have "validateWalletDescriptor X W1 \<noteq> Inr True" if "sw_segments W1 \<noteq> []"
      proof
        assume "validateWalletDescriptor X W1 = Inr True"
        from validate_joined [OF this] that show False by (auto simp: W1)
      qed
      ultimately show ?thesis by (auto simp: wallet_inv_def W1)
    next
      case False
      with inv show ?thesis by (auto simp: W1_def)
    qed
    have t1: "sw_total_segments W1 \<noteq> None"
      using False by (auto simp: W1_def)
    from False have f1: "\<not> (sw_total_segments W \<noteq> None \<and> sw_total_segments W \<noteq> nt)"
      and f2: "\<not> (sw_total_segments W = None \<and> nt = None)"
      by blast+
    note add1 = add [unfolded SpecterDecodeWalletQR_add_def Inr sum.case
        if_not_P [OF f1] if_not_P [OF f2] Let_def W1_def [symmetric]]
    show ?thesis
    proof (cases "SpecterDecodeWalletQR_currentSegmentNum X f")
      case (Inl e)
      with add1 have "W' = W1" by simp
      with inv1 c1 show ?thesis by simp
    next
      case cur: (Inr co)
      show ?thesis
      proof (cases co)
        case None
        with add1 cur have "W' = W1" by simp
        with inv1 c1 show ?thesis by simp
      next
        case (Some c)
        show ?thesis
        proof (cases "py_index_pos (sw_segments W1) (c - 1)")
          case None
          with add1 cur Some have "W' = W1" by simp
          with inv1 c1 show ?thesis by simp
        next
          case pos: (Some i)
          note i = py_index_pos_less [OF pos]
          show ?thesis
          proof (cases "sw_segments W1 ! i = None")
            case False
            with add1 cur Some pos have "W' = W1" by simp
            with inv1 c1 show ?thesis by simp
          next
            case True
            define W2 where "W2 = W1
              \<lparr>sw_segments := (sw_segments W1)[i := Some (SpecterDecodeWalletQR_parseSegment f)],
               sw_collected_segments := sw_collected_segments W1 + 1\<rparr>"
            obtain t where t: "sw_total_segments W1 = Some t" using t1 by auto
            have len: "length (sw_segments W2) = nat t" "sw_total_segments W2 = Some t"
              using inv1 t by (simp_all add: wallet_inv_def W2_def)
            have cnt: "sw_collected_segments W2
                       = length (filter (\<lambda>x. x \<noteq> None) (sw_segments W2))"
              using inv1 filled_update [OF i True] by (simp add: wallet_inv_def W2_def)
            have c2: "sw_complete W2 = sw_complete W" using c1 by (simp add: W2_def)
            have ne: "sw_segments W2 \<noteq> []" using i by (auto simp: W2_def)
            note res = add1 [unfolded cur Some sum.case option.case pos if_P [OF True]
                W2_def [symmetric]]
            have full: "sw_total_segments W2 = Some (int (sw_collected_segments W2))"
              if "validateWalletDescriptor X W2 = Inr True"
            proof -
              from validate_joined [OF that] have "None \<notin> set (sw_segments W2)" .
              then have "sw_collected_segments W2 = nat t"
                using cnt len filled_all [of "sw_segments W2"] by simp
              moreover have "length (sw_segments W2) \<noteq> 0" using ne by simp
              then have "0 < nat t" using len(1) by linarith
              ultimately show ?thesis using len by simp
            qed
            show ?thesis
            proof (cases "sw_total_segments W2 = Some (int (sw_collected_segments W2))")
              case False
              with res have r: "r = Inr PART_COMPLETE" "W' = W2" by simp_all
              have "validateWalletDescriptor X W2 \<noteq> Inr True" using full False by blast
              with r len cnt c2 show ?thesis by (simp add: wallet_inv_def)
            next
              case eq: True
              show ?thesis
              proof (cases "validateWalletDescriptor X W2")
                case (Inl e)
                with res eq have r: "W' = W2" by simp
                with Inl len cnt c2 show ?thesis by (simp add: wallet_inv_def)
              next
                case (Inr ok)
                show ?thesis
                proof (cases ok)
                  case True
                  with res eq Inr have r: "r = Inr COMPLETE" "W' = W2\<lparr>sw_complete := True\<rparr>"
                    by simp_all
                  with len cnt show ?thesis by (simp add: wallet_inv_def)
                next
                  case False
                  with res eq Inr have r: "r = Inr INVALID" "W' = W2" by simp_all
                  with Inr False len cnt c2 show ?thesis by (simp add: wallet_inv_def)
                qed
              qed
            qed
          qed
        qed
      qed
    qed
  qed
qed

lemma SeedQR_add_complete':
  "sq_complete (snd (SeedQR_add X q s t)) \<Longrightarrow>
   sq_complete q \<or> fst (SeedQR_add X q s t) = Inr COMPLETE"
  using SeedQR_add_complete [of X q s t "fst (SeedQR_add X q s t)" "snd (SeedQR_add X q s t)"]
  by simp

lemma BitcoinAddressQR_add_result':
  "fst (BitcoinAddressQR_add a s t) = Inr COMPLETE \<or> snd (BitcoinAddressQR_add a s t) = a"
  using BitcoinAddressQR_add_result
    [of a s t "fst (BitcoinAddressQR_add a s t)" "snd (BitcoinAddressQR_add a s t)"]
  by auto

lemma wallet_inv_add':
  assumes "wallet_inv X W"
  shows "wallet_inv X (snd (SpecterDecodeWalletQR_add X W f))"
    and "sw_complete (snd (SpecterDecodeWalletQR_add X W f)) \<Longrightarrow>
         sw_complete W \<or> fst (SpecterDecodeWalletQR_add X W f) = Inr COMPLETE"
  using wallet_inv_add [OF assms, of f "fst (SpecterDecodeWalletQR_add X W f)"
      "snd (SpecterDecodeWalletQR_add X W f)"]
  by auto

lemma session_inv_addString:
  assumes inv: "session_inv X self0" and add: "DecodeQR_addString X self0 f = (r, self')"
  shows "session_inv X self'"
proof (cases f)
  case None
  with add have "self' = self0" by (simp add: DecodeQR_addString_def)
  with inv show ?thesis by simp
next
  case (Some s)
  show ?thesis
  proof (cases "SegmentType X (Some (wordlist self0)) s")
    case (Inl e)
    with add Some have "self' = self0" by (simp add: DecodeQR_addString_def)
    with inv show ?thesis by simp
  next
    case (Inr t)
    show ?thesis
    proof (cases "qr_type self0 \<noteq> None \<and> qr_type self0 \<noteq> Some t")
      case True
      with add Some Inr have "self' = self0" by (simp add: DecodeQR_addString_def)
      with inv show ?thesis by simp
    next
      case False
      define self where "self = (if qr_type self0 = None then self0\<lparr>qr_type := Some t\<rparr> else self0)"
      note add1 = add [unfolded DecodeQR_addString_def Some option.case Inr sum.case
          if_not_P [OF False] Let_def self_def [symmetric]]
      have qt: "qr_type self = Some t" using False by (auto simp: self_def)
      have inv1: "session_inv X self" using inv False by (auto simp: self_def session_inv_def)
      note wal = wallet_inv_add' [of X "specter_wallet_qr self" s]
      note sd = SeedQR_add_complete' [of X "seedqr self" s]
      note ad = BitcoinAddressQR_add_result' [of "address_qr self" s BITCOINADDRESSQR]
      show ?thesis
        using add1 qt inv1 wal sd ad
        by (cases t) (auto simp: return_rt_def split_beta session_inv_def split: if_splits)
    qed
  qed
qed

lemma session_inv_new: "session_inv X (DecodeQR_new X q wl)"
  by (simp add: session_inv_def DecodeQR_new_def wallet_inv_def SpecterDecodeWalletQR_init_def
      BitcoinAddressQR_init_def)

lemma session_inv_run:
  "session_inv X self \<Longrightarrow> session_inv X (DecodeQR_run X self frames)"
proof (induction frames arbitrary: self)
  case Nil
  then show ?case by simp
next
  case (Cons f frames)
  have "session_inv X (snd (DecodeQR_addString X self f))"
    by (rule session_inv_addString [OF Cons.prems, of f "fst (DecodeQR_addString X self f)"]) simp
  from Cons.IH [OF this] show ?case by simp
qed

lemma getWalletDescriptor_validated:
  "SpecterDecodeWalletQR_getWalletDescriptor X W = Inr (Some v) \<Longrightarrow>
   validateWalletDescriptor X W = Inr True"
  by (auto simp: SpecterDecodeWalletQR_getWalletDescriptor_def split: sum.splits if_splits)

lemma validate_empty:
  "validateWalletDescriptor X W = Inr True \<Longrightarrow> sw_segments W = [] \<Longrightarrow>
   json_loads X [] \<noteq> None"
  by (auto simp: validateWalletDescriptor_def validateJson_def join_segments_def
      split: sum.splits if_splits)

lemma wallet_descriptor_complete:
  assumes "session_inv X self" and "json_loads X [] = None"
      and "DecodeQR_getWalletDescriptor X self = Inr (Some v)"
  shows "complete self \<and> qr_type self = Some SPECTERWALLETQR"
proof -
  from assms(3) have val: "validateWalletDescriptor X (specter_wallet_qr self) = Inr True"
    by (simp add: DecodeQR_getWalletDescriptor_def getWalletDescriptor_validated)
  with validate_empty [OF val] assms(2) have "sw_segments (specter_wallet_qr self) \<noteq> []"
    by blast
  with val assms(1) have "sw_complete (specter_wallet_qr self)"
    by (simp add: session_inv_def wallet_inv_def)
  with assms(1) show ?thesis by (simp add: session_inv_def)
qed

text \<open>
  C1 (amended): in every state that a new session reaches through submitted frames,
  also after exceptions, and with a JSON reader that rejects the empty text: when the
  session is not complete, \<open>getDataPSBT\<close> returns absent, \<open>getSeedPhrase\<close> the empty
  list, \<open>getAddress\<close> and \<open>getAddressType\<close> absent, and \<open>getWalletDescriptor\<close> returns no
  descriptor; the same holds of each of these accessors when the locked type is not
  of its family.  An address frame that gets Invalid leaves the address decoder as it
  was, since the anchored re-check of a matched address cannot fail.  Nothing is said
  of \<open>get_settings_data\<close>, which returns the dictionary of the settings decoder as
  it is.
\<close>

theorem accessors_of_incomplete_session:
  assumes "self = DecodeQR_run X (DecodeQR_new X q wl) frames"
      and "json_loads X [] = None"
  shows "(\<not> complete self \<longrightarrow>
            DecodeQR_getDataPSBT X self = Inr None
            \<and> DecodeQR_getSeedPhrase self = []
            \<and> DecodeQR_getAddress self = None
            \<and> DecodeQR_getAddressType self = None
            \<and> (\<forall>v. DecodeQR_getWalletDescriptor X self \<noteq> Inr (Some v)))
       \<and> (qr_type self \<notin> {Some PSBTUR2, Some PSBTSPECTER, Some PSBTURLEGACY,
                            Some PSBTBASE64, Some PSBTBASE43} \<longrightarrow>
            DecodeQR_getDataPSBT X self = Inr None)
       \<and> (qr_type self \<notin> {Some SEEDSSQR, Some SEEDMNEMONIC, Some SEED4LETTERMNEMONIC} \<longrightarrow>
            DecodeQR_getSeedPhrase self = [])
       \<and> (qr_type self \<noteq> Some BITCOINADDRESSQR \<longrightarrow>
            DecodeQR_getAddress self = None \<and> DecodeQR_getAddressType self = None)
       \<and> (qr_type self \<noteq> Some SPECTERWALLETQR \<longrightarrow>
            (\<forall>v. DecodeQR_getWalletDescriptor X self \<noteq> Inr (Some v)))
       \<and> (fst (BitcoinAddressQR_add a segment t) = Inr INVALID \<longrightarrow>
            snd (BitcoinAddressQR_add a segment t) = a)"
proof -
  have inv: "session_inv X self"
    unfolding assms(1) by (rule session_inv_run [OF session_inv_new])
  note wd = wallet_descriptor_complete [OF inv assms(2)]
  have psbt: "\<not> complete self \<longrightarrow> DecodeQR_getDataPSBT X self = Inr None"
    "qr_type self \<notin> {Some PSBTUR2, Some PSBTSPECTER, Some PSBTURLEGACY,
                      Some PSBTBASE64, Some PSBTBASE43} \<longrightarrow>
     DecodeQR_getDataPSBT X self = Inr None"
    by (simp_all add: DecodeQR_getDataPSBT_def)
  have seed: "\<not> complete self \<longrightarrow> DecodeQR_getSeedPhrase self = []"
    "qr_type self \<notin> {Some SEEDSSQR, Some SEEDMNEMONIC, Some SEED4LETTERMNEMONIC} \<longrightarrow>
     DecodeQR_getSeedPhrase self = []"
    using inv by (auto simp: DecodeQR_getSeedPhrase_def SeedQR_getSeedPhrase_def session_inv_def)
  have addr: "\<not> complete self \<longrightarrow>
       DecodeQR_getAddress self = None \<and> DecodeQR_getAddressType self = None"
    "qr_type self \<noteq> Some BITCOINADDRESSQR \<longrightarrow>
       DecodeQR_getAddress self = None \<and> DecodeQR_getAddressType self = None"
    using inv
    by (auto simp: DecodeQR_getAddress_def DecodeQR_getAddressType_def
        BitcoinAddressQR_getAddress_def BitcoinAddressQR_getAddressType_def session_inv_def)
  have wallet: "\<not> complete self \<longrightarrow> (\<forall>v. DecodeQR_getWalletDescriptor X self \<noteq> Inr (Some v))"
    "qr_type self \<noteq> Some SPECTERWALLETQR \<longrightarrow>
       (\<forall>v. DecodeQR_getWalletDescriptor X self \<noteq> Inr (Some v))"
    using wd by blast+
  have invalid: "fst (BitcoinAddressQR_add a segment t) = Inr INVALID \<longrightarrow>
            snd (BitcoinAddressQR_add a segment t) = a"
    using BitcoinAddressQR_add_result' [of a segment t] by auto
  from psbt seed addr wallet invalid show ?thesis by blast
qed

lemma bitcoin_xyz_incomplete:
  "\<not> complete (DecodeQR_run sample_collaborators
       (DecodeQR_new sample_collaborators None [''abandon'']) [Some ''bitcoin:xyz''])"
  by code_simp

lemma bitcoin_xyz_type:
  "qr_type (DecodeQR_run sample_collaborators
       (DecodeQR_new sample_collaborators None [''abandon'']) [Some ''bitcoin:xyz''])
   = Some BITCOINADDRESSQR"
  by code_simp

theorem accessors_of_incomplete_session_witness:
  "DecodeQR_getAddress (DecodeQR_run sample_collaborators
       (DecodeQR_new sample_collaborators None [''abandon'']) [Some ''bitcoin:xyz'']) = None
   \<and> DecodeQR_getSeedPhrase (DecodeQR_run sample_collaborators
       (DecodeQR_new sample_collaborators None [''abandon'']) [Some ''bitcoin:xyz'']) = []
   \<and> DecodeQR_getDataPSBT sample_collaborators (DecodeQR_run sample_collaborators
       (DecodeQR_new sample_collaborators None [''abandon'']) [Some ''bitcoin:xyz''])
      = Inr None"
proof -
  have j: "json_loads sample_collaborators [] = None"
    by (simp add: sample_collaborators_def)
  from accessors_of_incomplete_session [OF refl j, of None "[''abandon'']" "[Some ''bitcoin:xyz'']"]
    bitcoin_xyz_incomplete bitcoin_xyz_type
  show ?thesis by simp
qed

text \<open>
  C1, as the claim states it, fails: after the frame \<^verbatim>\<open>type=settings version=2 xpub=1\<close>,
  which gets Invalid, the session is not complete and \<open>get_settings_data\<close> returns the
  pairs that were read; and after the first of two wallet frames \<open>getWalletDescriptor\<close>
  raises \<^verbatim>\<open>TypeError\<close>.
\<close>

theorem accessors_not_all_gated:
  "fst (DecodeQR_addString sample_collaborators
          (DecodeQR_new sample_collaborators None [''abandon''])
          (Some ''type=settings version=2 xpub=1'')) = Inr INVALID
   \<and> \<not> complete (snd (DecodeQR_addString sample_collaborators
          (DecodeQR_new sample_collaborators None [''abandon''])
          (Some ''type=settings version=2 xpub=1'')))
   \<and> DecodeQR_get_settings_data (snd (DecodeQR_addString sample_collaborators
          (DecodeQR_new sample_collaborators None [''abandon''])
          (Some ''type=settings version=2 xpub=1''))) = [(''xpub'', SVStr ''1'')]
   \<and> fst (DecodeQR_addString sample_collaborators
          (DecodeQR_new sample_collaborators None [''abandon''])
          (Some ''p1of2 {x'')) = Inr PART_COMPLETE
   \<and> DecodeQR_getWalletDescriptor sample_collaborators
        (snd (DecodeQR_addString sample_collaborators
          (DecodeQR_new sample_collaborators None [''abandon''])
          (Some ''p1of2 {x''))) = Inl TypeError"
  by code_simp

end
